theory Spec2Isabelle
  imports Main "HOL-Library.Char_ord" "HOL-Library.List_Lexorder"
begin

section \<open>The Python runtime the core relies on\<close>

text \<open>
  The module \<^verbatim>\<open>plugins/module_utils/appstream_check_core.py\<close> is pure Python over
  strings, lists, dictionaries and \<^verbatim>\<open>datetime.date\<close>. This section models the
  library operations it calls, as CPython performs them. A Python string is a
  \<^typ>\<open>string\<close>; each \<^typ>\<open>char\<close> stands for the code point of the same number, so
  the model covers the strings whose code points lie below 256. Exceptions are values: a
  fallible operation returns \<open>py_error + 'a\<close>, with \<open>Inl\<close> for the exception raised.
  Python integers are unbounded (\<^typ>\<open>int\<close>); the interpreter's optional limit on the
  number of digits that \<^verbatim>\<open>int()\<close> converts is not part of the model.
\<close>

subsection \<open>Exceptions\<close>

datatype py_error =
    ValueError string
  | KeyError string
  | IndexError string
  | OverflowError

subsection \<open>Characters and strings\<close>

definition apostrophe :: char where
  "apostrophe = CHR 0x27"

definition quotation_mark :: char where
  "quotation_mark = CHR 0x22"

definition backslash :: char where
  "backslash = CHR 0x5C"

text \<open>\<^verbatim>\<open>str.isspace\<close> on one character: the code points below 256 that Unicode
  classes as whitespace.\<close>

definition isspace :: "char \<Rightarrow> bool" where
  "isspace c \<longleftrightarrow> c \<in> set [CHR 0x09, CHR 0x0A, CHR 0x0B, CHR 0x0C, CHR 0x0D,
     CHR 0x1C, CHR 0x1D, CHR 0x1E, CHR 0x1F, CHR 0x20, CHR 0x85, CHR 0xA0]"

text \<open>\<^verbatim>\<open>s.strip(chars)\<close> removes the leading and the trailing characters that
  belong to a set; \<^verbatim>\<open>s.strip()\<close> removes whitespace.\<close>

definition strip_by :: "(char \<Rightarrow> bool) \<Rightarrow> string \<Rightarrow> string" where
  "strip_by P s = rev (dropWhile P (rev (dropWhile P s)))"

definition strip :: "string \<Rightarrow> string" where
  "strip s = strip_by isspace s"

definition strip_char :: "char \<Rightarrow> string \<Rightarrow> string" where
  "strip_char c s = strip_by (\<lambda>x. x = c) s"

definition startswith :: "string \<Rightarrow> string \<Rightarrow> bool" where
  "startswith s p \<longleftrightarrow> take (length p) s = p"

text \<open>\<^verbatim>\<open>s.split(sep)\<close> for a separator of one character: every occurrence splits,
  and the result always has at least one component.\<close>

fun split_on :: "char \<Rightarrow> string \<Rightarrow> string list" where
  "split_on sep [] = [[]]"
| "split_on sep (c # cs) =
     (if c = sep then [] # split_on sep cs
      else (case split_on sep cs of
              [] \<Rightarrow> [[c]]
            | w # ws \<Rightarrow> (c # w) # ws))"

text \<open>\<^verbatim>\<open>s.split(sep, 1)\<close>: only the first occurrence splits.\<close>

definition split_first :: "char \<Rightarrow> string \<Rightarrow> string list" where
  "split_first sep s =
     (if sep \<in> set s
      then [takeWhile (\<lambda>c. c \<noteq> sep) s, tl (dropWhile (\<lambda>c. c \<noteq> sep) s)]
      else [s])"

text \<open>
  Splitting a text into lines. A line ends at a line boundary; carriage return followed
  by line feed is one boundary; a text that ends with a boundary has no empty last line.
  \<open>keepends\<close> says whether a line keeps its boundary, written as a line feed.
  \<^verbatim>\<open>str.splitlines()\<close> uses the Unicode line boundaries and drops them; reading a
  text file line by line uses the universal newlines and keeps a line feed.
\<close>

fun lines_from :: "(char \<Rightarrow> bool) \<Rightarrow> bool \<Rightarrow> bool \<Rightarrow> string \<Rightarrow> string \<Rightarrow> string list" where
  "lines_from brk keepends after_cr line [] = (if line = [] then [] else [line])"
| "lines_from brk keepends after_cr line (c # cs) =
     (if after_cr \<and> c = CHR 0x0A then lines_from brk keepends False line cs
      else if brk c
        then (line @ (if keepends then [CHR 0x0A] else []))
               # lines_from brk keepends (c = CHR 0x0D) [] cs
      else lines_from brk keepends False (line @ [c]) cs)"

definition is_line_boundary :: "char \<Rightarrow> bool" where
  "is_line_boundary c \<longleftrightarrow> c \<in> set [CHR 0x0A, CHR 0x0B, CHR 0x0C, CHR 0x0D,
     CHR 0x1C, CHR 0x1D, CHR 0x1E, CHR 0x85]"

definition splitlines :: "string \<Rightarrow> string list" where
  "splitlines s = lines_from is_line_boundary False False [] s"

definition is_newline :: "char \<Rightarrow> bool" where
  "is_newline c \<longleftrightarrow> c = CHR 0x0A \<or> c = CHR 0x0D"

definition file_lines :: "string \<Rightarrow> string list" where
  "file_lines s = lines_from is_newline True False [] s"

subsection \<open>Digits and integers\<close>

definition is_decimal :: "char \<Rightarrow> bool" where
  "is_decimal c \<longleftrightarrow> c \<in> set ''0123456789''"

text \<open>\<^verbatim>\<open>str.isdigit\<close> also accepts the superscript digits, which \<^verbatim>\<open>int()\<close>
  rejects.\<close>

definition isdigit_char :: "char \<Rightarrow> bool" where
  "isdigit_char c \<longleftrightarrow> is_decimal c \<or> c \<in> set [CHR 0xB2, CHR 0xB3, CHR 0xB9]"

definition isdigit :: "string \<Rightarrow> bool" where
  "isdigit s \<longleftrightarrow> s \<noteq> [] \<and> list_all isdigit_char s"

text \<open>The value of a decimal digit is the distance of its code point from the one of
  the digit zero.\<close>

definition digit_value :: "char \<Rightarrow> int" where
  "digit_value c = of_char c - of_char (CHR ''0'')"

definition decimal_value :: "string \<Rightarrow> int" where
  "decimal_value s = foldl (\<lambda>n c. 10 * n + digit_value c) 0 s"

definition digit_char :: "nat \<Rightarrow> char" where
  "digit_char n = ''0123456789abcdef'' ! n"

text \<open>\<^verbatim>\<open>str(n)\<close> for an integer.\<close>

fun str_nat :: "nat \<Rightarrow> string" where
  "str_nat n = (if n < 10 then [digit_char n] else str_nat (n div 10) @ [digit_char (n mod 10)])"

declare str_nat.simps [simp del]

definition str_int :: "int \<Rightarrow> string" where
  "str_int i = (if i < 0 then CHR ''-'' # str_nat (nat (- i)) else str_nat (nat i))"

text \<open>
  \<^verbatim>\<open>repr(s)\<close> of a string, as \<^verbatim>\<open>{value!r}\<close> formats it: single quotes unless
  the string has a single quote and no double quote; the quote, the backslash and the
  characters that are not printable are escaped.
\<close>

definition is_printable :: "char \<Rightarrow> bool" where
  "is_printable c \<longleftrightarrow>
     (let n = (of_char c :: nat) in 32 \<le> n \<and> n < 127 \<or> 161 \<le> n \<and> n \<noteq> 173)"

definition repr_char :: "char \<Rightarrow> char \<Rightarrow> string" where
  "repr_char q c =
     (if c = q \<or> c = backslash then [backslash, c]
      else if c = CHR 0x09 then [backslash, CHR ''t'']
      else if c = CHR 0x0A then [backslash, CHR ''n'']
      else if c = CHR 0x0D then [backslash, CHR ''r'']
      else if is_printable c then [c]
      else [backslash, CHR ''x'',
            digit_char ((of_char c :: nat) div 16), digit_char ((of_char c :: nat) mod 16)])"

definition repr_str :: "string \<Rightarrow> string" where
  "repr_str s =
     (let q = (if apostrophe \<in> set s \<and> quotation_mark \<notin> set s
               then quotation_mark else apostrophe)
      in [q] @ concat (map (repr_char q) s) @ [q])"

text \<open>
  \<^verbatim>\<open>int(s)\<close> in base ten: surrounding whitespace is dropped (the C whitespace and
  the whitespace beyond ASCII), one sign is allowed, and single underscores may separate
  digits. Anything else raises \<^verbatim>\<open>ValueError\<close>.
\<close>

definition is_int_space :: "char \<Rightarrow> bool" where
  "is_int_space c \<longleftrightarrow> c \<in> set [CHR 0x09, CHR 0x0A, CHR 0x0B, CHR 0x0C, CHR 0x0D,
     CHR 0x20, CHR 0x85, CHR 0xA0]"

fun digit_groups :: "string \<Rightarrow> bool" where
  "digit_groups [] = False"
| "digit_groups [c] = is_decimal c"
| "digit_groups (c # d # cs) =
     (is_decimal c \<and> (if d = CHR ''_'' then digit_groups cs else digit_groups (d # cs)))"

definition py_int :: "string \<Rightarrow> py_error + int" where
  "py_int s =
     (let t = strip_by is_int_space s;
          negative = (t \<noteq> [] \<and> hd t = CHR ''-'');
          body = (if t \<noteq> [] \<and> (hd t = CHR ''+'' \<or> hd t = CHR ''-'') then tl t else t)
      in if digit_groups body
         then Inr ((if negative then - 1 else 1)
                     * decimal_value (filter (\<lambda>c. c \<noteq> CHR ''_'') body))
         else Inl (ValueError (''invalid literal for int() with base 10: '' @ repr_str s)))"

subsection \<open>Calendar dates\<close>

text \<open>
  A \<^verbatim>\<open>datetime.date\<close>. CPython's constructor converts its three arguments to C
  integers first, so a component outside the 32-bit range raises
  \<^verbatim>\<open>OverflowError\<close>; only then are the ranges of year, month and day checked, each
  with a \<^verbatim>\<open>ValueError\<close>.
\<close>

record date =
  year :: int
  month :: int
  day :: int

definition is_leap :: "int \<Rightarrow> bool" where
  "is_leap y \<longleftrightarrow> y mod 4 = 0 \<and> (y mod 100 \<noteq> 0 \<or> y mod 400 = 0)"

definition days_in_month :: "int \<Rightarrow> int \<Rightarrow> int" where
  "days_in_month y m =
     (if m = 2 then (if is_leap y then 29 else 28)
      else if m = 4 \<or> m = 6 \<or> m = 9 \<or> m = 11 then 30
      else 31)"

definition fits_c_int :: "int \<Rightarrow> bool" where
  "fits_c_int i \<longleftrightarrow> - 2147483648 \<le> i \<and> i \<le> 2147483647"

definition date_new :: "int \<Rightarrow> int \<Rightarrow> int \<Rightarrow> py_error + date" where
  "date_new y m d =
     (if \<not> (fits_c_int y \<and> fits_c_int m \<and> fits_c_int d) then Inl OverflowError
      else if y < 1 \<or> 9999 < y
        then Inl (ValueError (''year '' @ str_int y @ '' is out of range''))
      else if m < 1 \<or> 12 < m then Inl (ValueError ''month must be in 1..12'')
      else if d < 1 \<or> days_in_month y m < d
        then Inl (ValueError ''day is out of range for month'')
      else Inr \<lparr>year = y, month = m, day = d\<rparr>)"

text \<open>\<^verbatim>\<open>a < b\<close> on dates compares year, month and day in this order.\<close>

definition date_less :: "date \<Rightarrow> date \<Rightarrow> bool" where
  "date_less a b \<longleftrightarrow>
     year a < year b \<or>
     year a = year b \<and> (month a < month b \<or> month a = month b \<and> day a < day b)"

text \<open>
  \<^verbatim>\<open>date.fromisoformat\<close>, the strict parser: the runtimes the source's fallback is
  written for accept exactly ten characters \<^verbatim>\<open>YYYY-MM-DD\<close>, all digits but the two
  dashes. (Later runtimes also accept the basic and the week formats of ISO 8601, none
  of which has the shape digits, dash, digits, dash, digits.)
\<close>

definition fromisoformat :: "string \<Rightarrow> py_error + date" where
  "fromisoformat s =
     (if length s = 10 \<and> list_all is_decimal (take 4 s) \<and> s ! 4 = CHR ''-''
         \<and> list_all is_decimal (take 2 (drop 5 s)) \<and> s ! 7 = CHR ''-''
         \<and> list_all is_decimal (drop 8 s)
      then date_new (decimal_value (take 4 s)) (decimal_value (take 2 (drop 5 s)))
             (decimal_value (drop 8 s))
      else Inl (ValueError (''Invalid isoformat string: '' @ repr_str s)))"

text \<open>The values a cutoff or an \<^verbatim>\<open>end_date\<close> holds: null, a string or a date.\<close>

datatype py_value = PyNone | PyStr string | PyDate date

definition zero_pad :: "nat \<Rightarrow> string \<Rightarrow> string" where
  "zero_pad w s = replicate (w - length s) (CHR ''0'') @ s"

definition py_str :: "py_value \<Rightarrow> string" where
  "py_str v =
     (case v of
        PyNone \<Rightarrow> ''None''
      | PyStr s \<Rightarrow> s
      | PyDate d \<Rightarrow> zero_pad 4 (str_int (year d)) @ ''-'' @ zero_pad 2 (str_int (month d))
                     @ ''-'' @ zero_pad 2 (str_int (day d)))"

definition py_repr :: "py_value \<Rightarrow> string" where
  "py_repr v =
     (case v of
        PyNone \<Rightarrow> ''None''
      | PyStr s \<Rightarrow> repr_str s
      | PyDate d \<Rightarrow> ''datetime.date('' @ str_int (year d) @ '', '' @ str_int (month d)
                     @ '', '' @ str_int (day d) @ '')'')"

section \<open>The Date Normalizer: \<^verbatim>\<open>parse_date\<close>\<close>

text \<open>
  The fallback of \<^verbatim>\<open>parse_date\<close>: split on the dash and, with exactly three parts,
  build the date from their integer values. \<open>Inr None\<close> is the path on which the
  \<^verbatim>\<open>try\<close> block ends without returning.
\<close>

definition fallback_date :: "string \<Rightarrow> py_error + date option" where
  "fallback_date text =
     (let parts = split_on (CHR ''-'') text in
      if length parts = 3 then
        (case py_int (parts ! 0) of Inl e \<Rightarrow> Inl e | Inr y \<Rightarrow>
         (case py_int (parts ! 1) of Inl e \<Rightarrow> Inl e | Inr m \<Rightarrow>
          (case py_int (parts ! 2) of Inl e \<Rightarrow> Inl e | Inr d \<Rightarrow>
           (case date_new y m d of Inl e \<Rightarrow> Inl e | Inr dt \<Rightarrow> Inr (Some dt)))))
      else Inr None)"

text \<open>\<^verbatim>\<open>except ValueError\<close> and \<^verbatim>\<open>except (ValueError, IndexError, TypeError)\<close>:
  the exceptions each handler catches (no modelled operation raises
  \<^verbatim>\<open>TypeError\<close>).\<close>

definition is_value_error :: "py_error \<Rightarrow> bool" where
  "is_value_error e = (case e of ValueError _ \<Rightarrow> True | _ \<Rightarrow> False)"

definition fallback_catches :: "py_error \<Rightarrow> bool" where
  "fallback_catches e = (case e of ValueError _ \<Rightarrow> True | IndexError _ \<Rightarrow> True | _ \<Rightarrow> False)"

definition invalid_date_format :: "py_value \<Rightarrow> py_error" where
  "invalid_date_format v =
     ValueError (''Invalid date format '' @ py_repr v @ '', expected YYYY-MM-DD'')"

definition parse_date :: "py_value \<Rightarrow> py_error + date" where
  "parse_date v =
     (case v of
        PyDate d \<Rightarrow> Inr d
      | _ \<Rightarrow>
        (let text = strip (py_str v) in
         case fromisoformat text of
           Inr d \<Rightarrow> Inr d
         | Inl e \<Rightarrow>
             if \<not> is_value_error e then Inl e
             else (case fallback_date text of
                     Inr (Some d) \<Rightarrow> Inr d
                   | Inr None \<Rightarrow> Inl (invalid_date_format v)
                   | Inl e' \<Rightarrow>
                       if fallback_catches e' then Inl (invalid_date_format v) else Inl e')))"

section \<open>The OS-Major Detector: \<^verbatim>\<open>detect_target_major\<close>\<close>

text \<open>
  The function reads the file at a path. The model takes what the file system answers in
  place of the path: the path does not exist, opening or reading the file raises
  \<^verbatim>\<open>OSError\<close>, or the file is read as a text.
\<close>

datatype os_release = NoFile | Unreadable | FileText string

text \<open>The assignment of the matching line:
  \<^verbatim>\<open>line.split("=", 1)[1].strip().strip('"').strip("'")\<close>.\<close>

definition version_id_of :: "string \<Rightarrow> py_error + string" where
  "version_id_of line =
     (case split_first (CHR ''='') line of
        [_, v] \<Rightarrow> Inr (strip_char apostrophe (strip_char quotation_mark (strip v)))
      | _ \<Rightarrow> Inl (IndexError ''list index out of range''))"

text \<open>The loop over the lines of the file, left at the first line that starts with
  \<^verbatim>\<open>VERSION_ID=\<close>. \<open>None\<close> is the initial \<^verbatim>\<open>version_id = None\<close>.\<close>

fun find_version_id :: "string list \<Rightarrow> py_error + string option" where
  "find_version_id [] = Inr None"
| "find_version_id (raw # rest) =
     (let line = strip raw in
      if startswith line ''VERSION_ID=''
      then (case version_id_of line of Inl e \<Rightarrow> Inl e | Inr v \<Rightarrow> Inr (Some v))
      else find_version_id rest)"

definition read_version_id :: "os_release \<Rightarrow> py_error + string option" where
  "read_version_id f =
     (case f of
        NoFile \<Rightarrow> Inr None
      | Unreadable \<Rightarrow> Inr None
      | FileText t \<Rightarrow> find_version_id (file_lines t))"

definition version_id_not_detected :: py_error where
  "version_id_not_detected =
     ValueError ''Unable to detect VERSION_ID from /etc/os-release; pass target_major explicitly.''"

definition major_not_parsed :: "string \<Rightarrow> py_error" where
  "major_not_parsed version_id =
     ValueError (''Unable to parse major version from VERSION_ID='' @ repr_str version_id
                 @ ''; pass target_major explicitly.'')"

definition target_major_of :: "string \<Rightarrow> py_error + string" where
  "target_major_of version_id =
     (case split_first (CHR ''.'') version_id of
        [] \<Rightarrow> Inl (IndexError ''list index out of range'')
      | major # _ \<Rightarrow>
          if \<not> isdigit major then Inl (major_not_parsed version_id)
          else (case py_int major of
                  Inl e \<Rightarrow> Inl e
                | Inr n \<Rightarrow> Inr (''el'' @ str_int n)))"

definition detect_target_major :: "os_release \<Rightarrow> py_error + string" where
  "detect_target_major f =
     (case read_version_id f of
        Inl e \<Rightarrow> Inl e
      | Inr None \<Rightarrow> Inl version_id_not_detected
      | Inr (Some version_id) \<Rightarrow>
          if version_id = [] then Inl version_id_not_detected
          else target_major_of version_id)"

section \<open>The Inventory Parser: \<^verbatim>\<open>parse_rpm_modularity_output\<close>\<close>

text \<open>A dictionary from strings, in insertion order: \<open>dict_get\<close> is
  \<^verbatim>\<open>d.get(k, default)\<close>, \<open>dict_keys\<close> is \<^verbatim>\<open>d.keys()\<close> and
  \<open>setdefault_append\<close> is \<^verbatim>\<open>d.setdefault(k, []).append(v)\<close>.\<close>

type_synonym 'v py_dict = "(string \<times> 'v) list"

definition dict_get :: "'v py_dict \<Rightarrow> string \<Rightarrow> 'v \<Rightarrow> 'v" where
  "dict_get d k dflt = (case map_of d k of None \<Rightarrow> dflt | Some v \<Rightarrow> v)"

definition dict_keys :: "'v py_dict \<Rightarrow> string list" where
  "dict_keys d = map fst d"

fun setdefault_append :: "string list py_dict \<Rightarrow> string \<Rightarrow> string \<Rightarrow> string list py_dict" where
  "setdefault_append [] k v = [(k, [v])]"
| "setdefault_append ((k', vs) # d) k v =
     (if k' = k then (k', vs @ [v]) # d else (k', vs) # setdefault_append d k v)"

text \<open>\<^verbatim>\<open>sorted(set(xs))\<close> on strings.\<close>

definition sorted_set :: "string list \<Rightarrow> string list" where
  "sorted_set xs = sort (remdups xs)"

text \<open>What one line of the output says, once it is trimmed: nothing (a blank line), a
  package without module, or a package of a module stream.\<close>

datatype rpm_line = Blank | NonModular string | Modular string string

definition unexpected_line :: "string \<Rightarrow> py_error" where
  "unexpected_line line =
     ValueError (''Unexpected rpm output line (expected 2 columns): '' @ [apostrophe] @ line
                 @ [apostrophe])"

definition invalid_label :: "string \<Rightarrow> string \<Rightarrow> py_error" where
  "invalid_label package_name label =
     ValueError (''Invalid MODULARITYLABEL format for package '' @ [apostrophe] @ package_name
                 @ [apostrophe] @ '': '' @ [apostrophe] @ label @ [apostrophe])"

text \<open>The body of the loop up to the update of the two collections; the second
  component of \<open>Modular\<close> is the package, the first the key.\<close>

definition parse_line :: "string \<Rightarrow> py_error + rpm_line" where
  "parse_line raw =
     (let line = strip raw in
      if line = [] then Inr Blank
      else
        (let parts = split_first (CHR '' '') line in
         if length parts \<noteq> 2 then Inl (unexpected_line line)
         else
           (let package_name = strip (parts ! 0); label = strip (parts ! 1) in
            if label = ''(none)'' then Inr (NonModular package_name)
            else
              (let label_parts = split_on (CHR '':'') label in
               if length label_parts < 2 \<or> label_parts ! 0 = [] \<or> label_parts ! 1 = []
               then Inl (invalid_label package_name label)
               else Inr (Modular (label_parts ! 0 @ '':'' @ label_parts ! 1) package_name)))))"

fun parse_lines ::
  "string list \<Rightarrow> string list py_dict \<Rightarrow> string list
     \<Rightarrow> py_error + (string list py_dict \<times> string list)" where
  "parse_lines [] modules_raw installed_packages = Inr (modules_raw, installed_packages)"
| "parse_lines (raw # rest) modules_raw installed_packages =
     (case parse_line raw of
        Inl e \<Rightarrow> Inl e
      | Inr Blank \<Rightarrow> parse_lines rest modules_raw installed_packages
      | Inr (NonModular package_name) \<Rightarrow>
          parse_lines rest modules_raw (installed_packages @ [package_name])
      | Inr (Modular key package_name) \<Rightarrow>
          parse_lines rest (setdefault_append modules_raw key package_name) installed_packages)"

definition parse_rpm_modularity_output ::
  "string \<Rightarrow> py_error + (string list py_dict \<times> string list)" where
  "parse_rpm_modularity_output output =
     (case parse_lines (splitlines output) [] [] of
        Inl e \<Rightarrow> Inl e
      | Inr (modules_raw, installed_packages) \<Rightarrow> Inr (modules_raw, sorted_set installed_packages))"

section \<open>The Lifecycle Evaluator: \<^verbatim>\<open>evaluate_appstream_check\<close>\<close>

text \<open>
  The reference table maps a target key to two lists of entries. An entry is a dictionary
  read with \<^verbatim>\<open>item.get\<close>: a name or stream is \<open>None\<close> when the key is missing or
  null, and so is a list of the table. The parameter \<^verbatim>\<open>target_major\<close> of the source
  is \<open>target\<close> here, since the result has a field of that name.
\<close>

record package_entry =
  pkg_name :: "string option"
  pkg_end_date :: py_value

record module_entry =
  mod_name :: "string option"
  mod_stream :: "string option"
  mod_end_date :: py_value

record major_data =
  package :: "package_entry list option"
  dnf_module :: "module_entry list option"

record appstream_check_result =
  target_major :: string
  matched_packages :: "string list"
  matched_dnf_modules :: "string list"
  matched_dnf_modules_packages :: "string list"
  any_match :: bool

definition is_retired :: "py_value \<Rightarrow> date \<Rightarrow> py_error + bool" where
  "is_retired end_date_raw cutoff =
     (if end_date_raw = PyNone \<or> end_date_raw = PyStr [] then Inr False
      else (case parse_date end_date_raw of
              Inr d \<Rightarrow> Inr (date_less d cutoff)
            | Inl e \<Rightarrow> if is_value_error e then Inr False else Inl e))"

text \<open>\<^verbatim>\<open>str(x)\<close> and the truth value of a name read with \<^verbatim>\<open>item.get\<close>.\<close>

definition str_opt :: "string option \<Rightarrow> string" where
  "str_opt x = (case x of None \<Rightarrow> ''None'' | Some s \<Rightarrow> s)"

definition truthy :: "string option \<Rightarrow> bool" where
  "truthy x \<longleftrightarrow> x \<noteq> None \<and> x \<noteq> Some []"

text \<open>The two generator expressions, entry by entry; the first exception ends them.\<close>

fun retired_package_names :: "date \<Rightarrow> package_entry list \<Rightarrow> py_error + string list" where
  "retired_package_names cutoff [] = Inr []"
| "retired_package_names cutoff (item # items) =
     (case is_retired (pkg_end_date item) cutoff of
        Inl e \<Rightarrow> Inl e
      | Inr retired \<Rightarrow>
          (case retired_package_names cutoff items of
             Inl e \<Rightarrow> Inl e
           | Inr names \<Rightarrow>
               Inr (if retired \<and> truthy (pkg_name item)
                    then str_opt (pkg_name item) # names else names)))"

fun retired_module_names :: "date \<Rightarrow> module_entry list \<Rightarrow> py_error + string list" where
  "retired_module_names cutoff [] = Inr []"
| "retired_module_names cutoff (item # items) =
     (case is_retired (mod_end_date item) cutoff of
        Inl e \<Rightarrow> Inl e
      | Inr retired \<Rightarrow>
          (case retired_module_names cutoff items of
             Inl e \<Rightarrow> Inl e
           | Inr names \<Rightarrow>
               Inr (if retired \<and> truthy (mod_name item) \<and> truthy (mod_stream item)
                    then (str_opt (mod_name item) @ '':'' @ str_opt (mod_stream item)) # names
                    else names)))"

text \<open>\<^verbatim>\<open>major_data.get(key, []) or []\<close>, and \<^verbatim>\<open>a or b\<close> on two lists.\<close>

definition or_empty :: "'a list option \<Rightarrow> 'a list" where
  "or_empty x = (case x of None \<Rightarrow> [] | Some xs \<Rightarrow> xs)"

definition py_or :: "'a list \<Rightarrow> 'a list \<Rightarrow> 'a list" where
  "py_or a b = (if a = [] then b else a)"

definition evaluate_appstream_check ::
  "(string \<rightharpoonup> major_data) \<Rightarrow> string \<Rightarrow> py_value \<Rightarrow> string list py_dict \<Rightarrow> string list
     \<Rightarrow> py_error + (appstream_check_result \<times> string list)" where
  "evaluate_appstream_check grouped_data target selected_date installed_dnf_modules_raw
       installed_packages =
     (case parse_date selected_date of
        Inl e \<Rightarrow> Inl e
      | Inr cutoff \<Rightarrow>
     (case grouped_data target of
        None \<Rightarrow> Inl (KeyError target)
      | Some major \<Rightarrow>
     (let packages_data = or_empty (package major);
          modules_data = or_empty (dnf_module major)
      in
     (case retired_package_names cutoff packages_data of
        Inl e \<Rightarrow> Inl e
      | Inr package_names \<Rightarrow>
     (case retired_module_names cutoff modules_data of
        Inl e \<Rightarrow> Inl e
      | Inr module_names \<Rightarrow>
     (let reference_package_names = sorted_set package_names;
          reference_module_names = sorted_set module_names;
          retired_installed_packages =
            sorted_set (filter (\<lambda>p. p \<in> set reference_package_names) installed_packages);
          installed_dnf_modules =
            sorted_set (filter (\<lambda>k. k \<in> set reference_module_names)
                          (dict_keys installed_dnf_modules_raw));
          matched_packages_of_modules =
            sorted_set (concat (map (\<lambda>module_name. dict_get installed_dnf_modules_raw module_name [])
                                  installed_dnf_modules));
          packages_to_remove = sorted_set (retired_installed_packages @ matched_packages_of_modules)
      in Inr (\<lparr>target_major = target,
               matched_packages = retired_installed_packages,
               matched_dnf_modules = installed_dnf_modules,
               matched_dnf_modules_packages = matched_packages_of_modules,
               any_match = (py_or retired_installed_packages installed_dnf_modules \<noteq> [])\<rparr>,
              packages_to_remove)))))))"

section \<open>The specification's words on a line of the output\<close>

text \<open>
  The specification describes a trimmed line by its two fields, split at the first space,
  and a label by its components between colons. These definitions follow its words; the
  theorems on the parser compare them with \<open>parse_line\<close> and the loop.
\<close>

definition line_package :: "string \<Rightarrow> string" where
  "line_package line = strip (takeWhile (\<lambda>c. c \<noteq> CHR '' '') line)"

definition line_label :: "string \<Rightarrow> string" where
  "line_label line = strip (tl (dropWhile (\<lambda>c. c \<noteq> CHR '' '') line))"

text \<open>The first two components of a label, joined by a colon.\<close>

definition label_key :: "string \<Rightarrow> string" where
  "label_key label =
     split_on (CHR '':'') label ! 0 @ '':'' @ split_on (CHR '':'') label ! 1"

text \<open>A label other than \<^verbatim>\<open>(none)\<close> with fewer than two components, or with an empty
  first or second component.\<close>

definition label_defect :: "string \<Rightarrow> bool" where
  "label_defect label \<longleftrightarrow>
     label \<noteq> ''(none)'' \<and>
     (length (split_on (CHR '':'') label) < 2 \<or> split_on (CHR '':'') label ! 0 = []
      \<or> split_on (CHR '':'') label ! 1 = [])"

text \<open>A trimmed line is malformed when it is not blank and either has no space to split
  at or has a defective label.\<close>

definition malformed_line :: "string \<Rightarrow> bool" where
  "malformed_line line \<longleftrightarrow>
     line \<noteq> [] \<and> (CHR '' '' \<notin> set line \<or> label_defect (line_label line))"

text \<open>The packages that the trimmed, non-blank lines record without module, and those
  they record under a key, in the order of the lines.\<close>

definition non_modular_packages :: "string list \<Rightarrow> string list" where
  "non_modular_packages raws =
     map line_package
       (filter (\<lambda>line. line \<noteq> [] \<and> line_label line = ''(none)'') (map strip raws))"

definition modular_packages :: "string \<Rightarrow> string list \<Rightarrow> string list" where
  "modular_packages key raws =
     map line_package
       (filter (\<lambda>line. line \<noteq> [] \<and> line_label line \<noteq> ''(none)''
                        \<and> label_key (line_label line) = key) (map strip raws))"

section \<open>Inputs of the scenarios\<close>

text \<open>The reference table of the two evaluation scenarios of the specification.\<close>

definition scenario_reference :: "string \<rightharpoonup> major_data" where
  "scenario_reference =
     [''el9'' \<mapsto>
        \<lparr>package = Some [\<lparr>pkg_name = Some ''retired-nonmod'',
                           pkg_end_date = PyStr ''2020-01-01''\<rparr>],
         dnf_module = Some [\<lparr>mod_name = Some ''nodejs'', mod_stream = Some ''18'',
                              mod_end_date = PyStr ''2020-01-01''\<rparr>]\<rparr>]"

text \<open>An output with a package on two lines of one stream, and a package without module on
  two lines.\<close>

definition duplicate_output :: string where
  "duplicate_output =
     ''pkg-z (none)'' @ [CHR 0x0A] @ ''pkg-b nodejs:18:ctx'' @ [CHR 0x0A] @ ''pkg-a (none)''
     @ [CHR 0x0A] @ ''pkg-b nodejs:18:other'' @ [CHR 0x0A] @ ''pkg-z (none)'' @ [CHR 0x0A]"

text \<open>A table whose two \<^verbatim>\<open>package\<close> entries are retired by their date and have no name:
  one name is null, the other is empty.\<close>

definition nameless_reference :: "string \<rightharpoonup> major_data" where
  "nameless_reference =
     [''el9'' \<mapsto>
        \<lparr>package = Some [\<lparr>pkg_name = None, pkg_end_date = PyStr ''2020-01-01''\<rparr>,
                          \<lparr>pkg_name = Some [], pkg_end_date = PyStr ''2020-01-01''\<rparr>],
         dnf_module = None\<rparr>]"

text \<open>An output with two packages of the stream \<^verbatim>\<open>nodejs:18\<close>.\<close>

definition stream_output :: string where
  "stream_output = ''nodejs-libs nodejs:18:ctx'' @ [CHR 0x0A] @ ''npm nodejs:18:ctx'' @ [CHR 0x0A]"

text \<open>A \<^verbatim>\<open>package\<close> entry with a name that is neither null nor empty.\<close>

definition named :: "package_entry \<Rightarrow> bool" where
  "named item \<longleftrightarrow> truthy (pkg_name item)"

text \<open>A host identification file with the version 9.4 on its second line.\<close>

definition os_release_9_4 :: string where
  "os_release_9_4 =
     ''NAME='' @ [quotation_mark] @ ''RHEL'' @ [quotation_mark, CHR 0x0A]
     @ ''VERSION_ID='' @ [quotation_mark] @ ''9.4'' @ [quotation_mark, CHR 0x0A]"

section \<open>Properties of the evaluator\<close>

subsection \<open>Sorted sets\<close>

lemma set_sorted_set: "set (sorted_set xs) = set xs"
  by (simp add: sorted_set_def)

lemma sorted_sorted_set: "sorted (sorted_set xs)"
  by (simp add: sorted_set_def)

lemma distinct_sorted_set: "distinct (sorted_set xs)"
  by (simp add: sorted_set_def)

subsection \<open>The two scenarios\<close>

lemma scenario_A_evaluation:
  "evaluate_appstream_check scenario_reference ''el9'' (PyStr ''2026-02-17'')
       [(''nodejs:18'', [''nodejs-libs''])] [''retired-nonmod'']
     = Inr (\<lparr>target_major = ''el9'', matched_packages = [''retired-nonmod''],
             matched_dnf_modules = [''nodejs:18''],
             matched_dnf_modules_packages = [''nodejs-libs''], any_match = True\<rparr>,
            [''nodejs-libs'', ''retired-nonmod''])"
  unfolding scenario_reference_def by code_simp

lemma scenario_B_evaluation:
  "evaluate_appstream_check scenario_reference ''el9'' (PyStr ''2019-01-01'')
       [(''nodejs:18'', [''nodejs-libs''])] [''retired-nonmod'']
     = Inr (\<lparr>target_major = ''el9'', matched_packages = [], matched_dnf_modules = [],
             matched_dnf_modules_packages = [], any_match = False\<rparr>, [])"
  unfolding scenario_reference_def by code_simp

text \<open>
  Claim C1. On the reference table of the scenarios, with the installed package
  \<^verbatim>\<open>retired-nonmod\<close> and the installed stream \<^verbatim>\<open>nodejs:18\<close> holding
  \<^verbatim>\<open>nodejs-libs\<close>, the cutoff 2026-02-17 gives exactly these matches, \<open>any_match\<close>
  true and the removal list \<^verbatim>\<open>nodejs-libs\<close>, \<^verbatim>\<open>retired-nonmod\<close>; the cutoff
  2019-01-01, which is not after the end dates, gives no match at all.
\<close>

theorem scenarios_A_and_B:
  "evaluate_appstream_check scenario_reference ''el9'' (PyStr ''2026-02-17'')
       [(''nodejs:18'', [''nodejs-libs''])] [''retired-nonmod'']
     = Inr (\<lparr>target_major = ''el9'', matched_packages = [''retired-nonmod''],
             matched_dnf_modules = [''nodejs:18''],
             matched_dnf_modules_packages = [''nodejs-libs''], any_match = True\<rparr>,
            [''nodejs-libs'', ''retired-nonmod''])
   \<and> evaluate_appstream_check scenario_reference ''el9'' (PyStr ''2019-01-01'')
       [(''nodejs:18'', [''nodejs-libs''])] [''retired-nonmod'']
     = Inr (\<lparr>target_major = ''el9'', matched_packages = [], matched_dnf_modules = [],
             matched_dnf_modules_packages = [], any_match = False\<rparr>, [])"
  using scenario_A_evaluation scenario_B_evaluation by simp

subsection \<open>A target key the table does not hold\<close>

text \<open>
  Claim C3, as the code has it. The cutoff is normalized first and the table is looked up
  second. With a target key that the table does not hold, the evaluation therefore fails
  with the failure of the Date Normalizer when the cutoff is rejected, and with
  \<^verbatim>\<open>KeyError\<close> carrying the requested key when the cutoff is accepted.
\<close>

theorem unknown_target_after_cutoff:
  assumes "grouped_data target = None"
  shows "evaluate_appstream_check grouped_data target selected_date modules_raw packages =
           (case parse_date selected_date of
              Inl e \<Rightarrow> Inl e
            | Inr cutoff \<Rightarrow> Inl (KeyError target))"
  using assms by (simp add: evaluate_appstream_check_def split: sum.splits)

lemma parse_date_2026_02_17:
  "parse_date (PyStr ''2026-02-17'') = Inr \<lparr>year = 2026, month = 2, day = 17\<rparr>"
  by code_simp

theorem unknown_target_after_cutoff_witness:
  "scenario_reference ''el8'' = None
   \<and> evaluate_appstream_check scenario_reference ''el8'' (PyStr ''2026-02-17'') [] []
       = Inl (KeyError ''el8'')"
proof -
  have missing: "scenario_reference ''el8'' = None"
    by (simp add: scenario_reference_def)
  show ?thesis
    using missing unknown_target_after_cutoff
      [of scenario_reference "''el8''" "PyStr ''2026-02-17''" "[]" "[]"]
    by (simp add: parse_date_2026_02_17)
qed

text \<open>The claim as the specification orders the two steps fails: the table has no
  \<^verbatim>\<open>el8\<close>, the cutoff is malformed, and the failure is the one of the cutoff.\<close>

theorem unknown_target_counterexample:
  "scenario_reference ''el8'' = None
   \<and> evaluate_appstream_check scenario_reference ''el8'' (PyStr ''not-a-date'') [] []
       = Inl (ValueError (''Invalid date format '' @ [apostrophe] @ ''not-a-date''
                          @ [apostrophe] @ '', expected YYYY-MM-DD''))
   \<and> evaluate_appstream_check scenario_reference ''el8'' (PyStr ''not-a-date'') [] []
       \<noteq> Inl (KeyError ''el8'')"
  unfolding scenario_reference_def by code_simp

subsection \<open>What a successful evaluation returns\<close>

lemma evaluate_success:
  assumes "evaluate_appstream_check gd t sd m p = Inr (res, removal)"
  shows "\<exists>cutoff major pn mn.
     parse_date sd = Inr cutoff \<and> gd t = Some major
     \<and> retired_package_names cutoff (or_empty (package major)) = Inr pn
     \<and> retired_module_names cutoff (or_empty (dnf_module major)) = Inr mn
     \<and> matched_packages res = sorted_set (filter (\<lambda>x. x \<in> set pn) p)
     \<and> matched_dnf_modules res = sorted_set (filter (\<lambda>k. k \<in> set mn) (dict_keys m))
     \<and> matched_dnf_modules_packages res =
         sorted_set (concat (map (\<lambda>k. dict_get m k []) (matched_dnf_modules res)))
     \<and> any_match res = (matched_packages res \<noteq> [] \<or> matched_dnf_modules res \<noteq> [])
     \<and> target_major res = t
     \<and> removal = sorted_set (matched_packages res @ matched_dnf_modules_packages res)"
  using assms
  by (auto simp add: evaluate_appstream_check_def Let_def set_sorted_set py_or_def
      split: sum.splits option.splits)

text \<open>
  Claim C4. For every successful evaluation, with the retired reference sets that the
  evaluation computes from the cutoff and the table: the matched packages lie in the
  intersection of the installed packages and the retired reference packages, the matched
  modules in the intersection of the installed stream keys and the retired reference
  modules (both intersections are reached); the removal list has no duplicates and holds
  exactly the matched packages and the packages of the matched modules; and the four
  sequences returned are sorted in the lexicographic order of strings.
\<close>

theorem intersection_laws_and_order:
  assumes "evaluate_appstream_check gd t sd m p = Inr (res, removal)"
  shows "\<exists>cutoff major pn mn.
     parse_date sd = Inr cutoff \<and> gd t = Some major
     \<and> retired_package_names cutoff (or_empty (package major)) = Inr pn
     \<and> retired_module_names cutoff (or_empty (dnf_module major)) = Inr mn
     \<and> set (matched_packages res) \<subseteq> set p \<inter> set (sorted_set pn)
     \<and> set p \<inter> set (sorted_set pn) \<subseteq> set (matched_packages res)
     \<and> set (matched_dnf_modules res) \<subseteq> set (dict_keys m) \<inter> set (sorted_set mn)
     \<and> set (dict_keys m) \<inter> set (sorted_set mn) \<subseteq> set (matched_dnf_modules res)
     \<and> set removal = set (matched_packages res) \<union> set (matched_dnf_modules_packages res)
     \<and> distinct removal
     \<and> sorted (matched_packages res) \<and> sorted (matched_dnf_modules res)
     \<and> sorted (matched_dnf_modules_packages res) \<and> sorted removal"
proof -
  from evaluate_success [OF assms] obtain cutoff major pn mn where
    h: "parse_date sd = Inr cutoff" "gd t = Some major"
       "retired_package_names cutoff (or_empty (package major)) = Inr pn"
       "retired_module_names cutoff (or_empty (dnf_module major)) = Inr mn"
    and mp: "matched_packages res = sorted_set (filter (\<lambda>x. x \<in> set pn) p)"
    and mm: "matched_dnf_modules res = sorted_set (filter (\<lambda>k. k \<in> set mn) (dict_keys m))"
    and mmp: "matched_dnf_modules_packages res =
         sorted_set (concat (map (\<lambda>k. dict_get m k []) (matched_dnf_modules res)))"
    and rm: "removal = sorted_set (matched_packages res @ matched_dnf_modules_packages res)"
    by blast
  have a: "set (matched_packages res) = set p \<inter> set (sorted_set pn)"
    by (auto simp add: mp set_sorted_set)
  have b: "set (matched_dnf_modules res) = set (dict_keys m) \<inter> set (sorted_set mn)"
    by (auto simp add: mm set_sorted_set)
  have c: "set removal = set (matched_packages res) \<union> set (matched_dnf_modules_packages res)"
    by (simp add: rm set_sorted_set)
  have d: "distinct removal" "sorted removal"
    by (simp_all add: rm distinct_sorted_set sorted_sorted_set)
  have e: "sorted (matched_packages res)" "sorted (matched_dnf_modules res)"
    "sorted (matched_dnf_modules_packages res)"
    by (simp_all add: mp mm mmp sorted_sorted_set)
  from h a b c d e show ?thesis by blast
qed

theorem intersection_laws_and_order_witness:
  "\<exists>cutoff major pn mn.
     parse_date (PyStr ''2026-02-17'') = Inr cutoff \<and> scenario_reference ''el9'' = Some major
     \<and> retired_package_names cutoff (or_empty (package major)) = Inr pn
     \<and> retired_module_names cutoff (or_empty (dnf_module major)) = Inr mn
     \<and> set [''retired-nonmod''] \<subseteq> set [''retired-nonmod''] \<inter> set (sorted_set pn)
     \<and> set [''retired-nonmod''] \<inter> set (sorted_set pn) \<subseteq> set [''retired-nonmod'']
     \<and> set [''nodejs:18''] \<subseteq> set (dict_keys [(''nodejs:18'', [''nodejs-libs''])])
                                 \<inter> set (sorted_set mn)
     \<and> set (dict_keys [(''nodejs:18'', [''nodejs-libs''])]) \<inter> set (sorted_set mn)
           \<subseteq> set [''nodejs:18'']
     \<and> set [''nodejs-libs'', ''retired-nonmod''] = set [''retired-nonmod''] \<union> set [''nodejs-libs'']
     \<and> distinct [''nodejs-libs'', ''retired-nonmod'']
     \<and> sorted [''retired-nonmod''] \<and> sorted [''nodejs:18''] \<and> sorted [''nodejs-libs'']
     \<and> sorted [''nodejs-libs'', ''retired-nonmod'']"
proof -
  have "matched_packages \<lparr>target_major = ''el9'', matched_packages = [''retired-nonmod''],
             matched_dnf_modules = [''nodejs:18''],
             matched_dnf_modules_packages = [''nodejs-libs''], any_match = True\<rparr>
          = [''retired-nonmod'']"
    and "matched_dnf_modules \<lparr>target_major = ''el9'', matched_packages = [''retired-nonmod''],
             matched_dnf_modules = [''nodejs:18''],
             matched_dnf_modules_packages = [''nodejs-libs''], any_match = True\<rparr>
          = [''nodejs:18'']"
    and "matched_dnf_modules_packages \<lparr>target_major = ''el9'',
             matched_packages = [''retired-nonmod''], matched_dnf_modules = [''nodejs:18''],
             matched_dnf_modules_packages = [''nodejs-libs''], any_match = True\<rparr>
          = [''nodejs-libs'']"
    by simp_all
  then show ?thesis
    using intersection_laws_and_order [OF scenario_A_evaluation] by metis
qed

section \<open>Properties of the parser\<close>

subsection \<open>One line\<close>

lemma split_first_space:
  "split_first (CHR '' '') line =
     (if CHR '' '' \<in> set line
      then [takeWhile (\<lambda>c. c \<noteq> CHR '' '') line, tl (dropWhile (\<lambda>c. c \<noteq> CHR '' '') line)]
      else [line])"
  by (simp add: split_first_def)

lemma parse_line_eq:
  "parse_line raw =
     (let line = strip raw in
      if line = [] then Inr Blank
      else if CHR '' '' \<notin> set line then Inl (unexpected_line line)
      else if line_label line = ''(none)'' then Inr (NonModular (line_package line))
      else if label_defect (line_label line)
        then Inl (invalid_label (line_package line) (line_label line))
      else Inr (Modular (label_key (line_label line)) (line_package line)))"
  by (simp add: parse_line_def Let_def split_first_space line_label_def line_package_def
      label_defect_def label_key_def)

lemma parse_line_fails_iff:
  "(\<exists>e. parse_line raw = Inl e) \<longleftrightarrow> malformed_line (strip raw)"
  by (auto simp add: parse_line_eq Let_def malformed_line_def label_defect_def)

lemma parse_line_error:
  assumes "parse_line raw = Inl e"
  shows "e = (if CHR '' '' \<notin> set (strip raw) then unexpected_line (strip raw)
              else invalid_label (line_package (strip raw)) (line_label (strip raw)))"
  using assms by (auto simp add: parse_line_eq Let_def split: if_splits)

subsection \<open>The dictionary of the streams\<close>

lemma map_of_setdefault_append:
  "map_of (setdefault_append d k v) = (map_of d)(k \<mapsto> dict_get d k [] @ [v])"
  by (induction d k v rule: setdefault_append.induct) (auto simp add: dict_get_def)

lemma values_setdefault_append:
  assumes "\<forall>(k', vs) \<in> set d. vs \<noteq> []"
  shows "\<forall>(k', vs) \<in> set (setdefault_append d k v). vs \<noteq> []"
  using assms by (induction d k v rule: setdefault_append.induct) auto

lemma keys_setdefault_append:
  "distinct (map fst d) \<Longrightarrow> distinct (map fst (setdefault_append d k v))"
  "set (map fst (setdefault_append d k v)) = insert k (set (map fst d))"
  by (induction d k v rule: setdefault_append.induct) auto

subsection \<open>The loop over the lines\<close>

lemma parse_lines_Cons:
  "parse_lines (raw # raws) d ps =
     (case parse_line raw of
        Inl e \<Rightarrow> Inl e
      | Inr Blank \<Rightarrow> parse_lines raws d ps
      | Inr (NonModular package_name) \<Rightarrow> parse_lines raws d (ps @ [package_name])
      | Inr (Modular key package_name) \<Rightarrow>
          parse_lines raws (setdefault_append d key package_name) ps)"
  by simp

lemma parse_lines_values:
  assumes "parse_lines raws d ps = Inr (d', ps')" and "\<forall>(k', vs) \<in> set d. vs \<noteq> []"
  shows "\<forall>(k', vs) \<in> set d'. vs \<noteq> []"
  using assms
proof (induction raws arbitrary: d ps)
  case Nil
  then show ?case by simp
next
  case (Cons raw raws)
  show ?case
  proof (cases "parse_line raw")
    case (Inl e)
    with Cons.prems(1) show ?thesis by simp
  next
    case (Inr r)
    show ?thesis
    proof (cases r)
      case Blank
      with Inr Cons.prems have "parse_lines raws d ps = Inr (d', ps')" by simp
      from Cons.IH [OF this Cons.prems(2)] show ?thesis .
    next
      case (NonModular pkg)
      with Inr Cons.prems have "parse_lines raws d (ps @ [pkg]) = Inr (d', ps')" by simp
      from Cons.IH [OF this Cons.prems(2)] show ?thesis .
    next
      case (Modular key pkg)
      with Inr Cons.prems
      have "parse_lines raws (setdefault_append d key pkg) ps = Inr (d', ps')" by simp
      from Cons.IH [OF this values_setdefault_append [OF Cons.prems(2)]] show ?thesis .
    qed
  qed
qed

lemma parse_lines_keys:
  assumes "parse_lines raws d ps = Inr (d', ps')" and "distinct (map fst d)"
  shows "distinct (map fst d')"
  using assms
proof (induction raws arbitrary: d ps)
  case Nil
  then show ?case by simp
next
  case (Cons raw raws)
  show ?case
  proof (cases "parse_line raw")
    case (Inl e)
    with Cons.prems(1) show ?thesis by simp
  next
    case (Inr r)
    show ?thesis
    proof (cases r)
      case Blank
      with Inr Cons.prems have "parse_lines raws d ps = Inr (d', ps')" by simp
      from Cons.IH [OF this Cons.prems(2)] show ?thesis .
    next
      case (NonModular pkg)
      with Inr Cons.prems have "parse_lines raws d (ps @ [pkg]) = Inr (d', ps')" by simp
      from Cons.IH [OF this Cons.prems(2)] show ?thesis .
    next
      case (Modular key pkg)
      with Inr Cons.prems
      have "parse_lines raws (setdefault_append d key pkg) ps = Inr (d', ps')" by simp
      from Cons.IH [OF this keys_setdefault_append(1) [OF Cons.prems(2)]] show ?thesis .
    qed
  qed
qed

lemma non_modular_packages_Cons:
  "non_modular_packages (raw # raws) =
     (if strip raw \<noteq> [] \<and> line_label (strip raw) = ''(none)''
      then line_package (strip raw) # non_modular_packages raws
      else non_modular_packages raws)"
  by (simp add: non_modular_packages_def)

lemma modular_packages_Cons:
  "modular_packages key (raw # raws) =
     (if strip raw \<noteq> [] \<and> line_label (strip raw) \<noteq> ''(none)''
         \<and> label_key (line_label (strip raw)) = key
      then line_package (strip raw) # modular_packages key raws
      else modular_packages key raws)"
  by (simp add: modular_packages_def)

lemma parse_line_Blank: "parse_line raw = Inr Blank \<longleftrightarrow> strip raw = []"
  by (auto simp add: parse_line_eq Let_def)

lemma parse_line_NonModular:
  "parse_line raw = Inr (NonModular pkg) \<Longrightarrow>
     strip raw \<noteq> [] \<and> line_label (strip raw) = ''(none)'' \<and> pkg = line_package (strip raw)"
  by (auto simp add: parse_line_eq Let_def split: if_splits)

lemma parse_line_Modular:
  "parse_line raw = Inr (Modular key pkg) \<Longrightarrow>
     strip raw \<noteq> [] \<and> line_label (strip raw) \<noteq> ''(none)''
     \<and> key = label_key (line_label (strip raw)) \<and> pkg = line_package (strip raw)"
  by (auto simp add: parse_line_eq Let_def split: if_splits)

lemma parse_lines_collects:
  assumes "parse_lines raws d ps = Inr (d', ps')"
  shows "ps' = ps @ non_modular_packages raws
     \<and> (\<forall>key. map_of d' key =
           (if modular_packages key raws = [] then map_of d key
            else Some (dict_get d key [] @ modular_packages key raws)))"
  using assms
proof (induction raws arbitrary: d ps)
  case Nil
  then show ?case by (simp add: non_modular_packages_def modular_packages_def)
next
  case (Cons raw raws)
  show ?case
  proof (cases "parse_line raw")
    case (Inl e)
    with Cons.prems(1) show ?thesis by simp
  next
    case (Inr r)
    show ?thesis
    proof (cases r)
      case Blank
      with Inr have blank: "strip raw = []" by (simp add: parse_line_Blank)
      from Blank Inr Cons.prems have "parse_lines raws d ps = Inr (d', ps')" by simp
      from Cons.IH [OF this] show ?thesis
        by (simp add: non_modular_packages_Cons modular_packages_Cons blank)
    next
      case (NonModular pkg)
      with Inr have line: "strip raw \<noteq> []" "line_label (strip raw) = ''(none)''"
        "pkg = line_package (strip raw)"
        using parse_line_NonModular by blast+
      from NonModular Inr Cons.prems
      have "parse_lines raws d (ps @ [pkg]) = Inr (d', ps')" by simp
      from Cons.IH [OF this] show ?thesis
        by (simp add: non_modular_packages_Cons modular_packages_Cons line)
    next
      case (Modular k pkg)
      with Inr have line: "strip raw \<noteq> []" "line_label (strip raw) \<noteq> ''(none)''"
        "k = label_key (line_label (strip raw))" "pkg = line_package (strip raw)"
        using parse_line_Modular by blast+
      from Modular Inr Cons.prems
      have "parse_lines raws (setdefault_append d k pkg) ps = Inr (d', ps')" by simp
      from Cons.IH [OF this]
      have ih: "ps' = ps @ non_modular_packages raws"
        "\<And>key. map_of d' key =
           (if modular_packages key raws = [] then map_of (setdefault_append d k pkg) key
            else Some (dict_get (setdefault_append d k pkg) key [] @ modular_packages key raws))"
        by blast+
      have nm: "non_modular_packages (raw # raws) = non_modular_packages raws"
        by (simp add: non_modular_packages_Cons line)
      have "map_of d' key =
           (if modular_packages key (raw # raws) = [] then map_of d key
            else Some (dict_get d key [] @ modular_packages key (raw # raws)))" for key
      proof (cases "key = k")
        case True
        have here: "modular_packages key (raw # raws) = pkg # modular_packages key raws"
          using True line by (simp add: modular_packages_Cons)
        show ?thesis
          unfolding ih(2) [of key] here
          by (simp add: True map_of_setdefault_append dict_get_def)
      next
        case False
        have here: "modular_packages key (raw # raws) = modular_packages key raws"
          using False line by (simp add: modular_packages_Cons)
        show ?thesis
          unfolding ih(2) [of key] here
          using False by (simp add: map_of_setdefault_append dict_get_def)
      qed
      with ih(1) nm show ?thesis by simp
    qed
  qed
qed

lemma parse_lines_fails_iff:
  "(\<exists>e. parse_lines raws d ps = Inl e) \<longleftrightarrow> (\<exists>raw \<in> set raws. \<exists>e. parse_line raw = Inl e)"
proof (induction raws arbitrary: d ps)
  case Nil
  then show ?case by simp
next
  case (Cons raw raws)
  show ?case
  proof (cases "parse_line raw")
    case (Inl e)
    then show ?thesis by auto
  next
    case (Inr r)
    then show ?thesis
      using Cons.IH by (cases r) auto
  qed
qed

lemma parse_lines_first_error:
  assumes "parse_lines raws d ps = Inl e"
  shows "\<exists>before raw after. raws = before @ raw # after
           \<and> (\<forall>x \<in> set before. \<forall>e'. parse_line x \<noteq> Inl e') \<and> parse_line raw = Inl e"
  using assms
proof (induction raws arbitrary: d ps)
  case Nil
  then show ?case by simp
next
  case (Cons raw raws)
  show ?case
  proof (cases "parse_line raw")
    case (Inl e')
    with Cons.prems have "e' = e" by simp
    with Inl have "raw # raws = [] @ raw # raws \<and> (\<forall>x \<in> set []. \<forall>e'. parse_line x \<noteq> Inl e')
       \<and> parse_line raw = Inl e" by simp
    then show ?thesis by blast
  next
    case (Inr r)
    with Cons.prems obtain d2 ps2 where "parse_lines raws d2 ps2 = Inl e"
      by (cases r) auto
    from Cons.IH [OF this] obtain before x after where
      h: "raws = before @ x # after" "\<forall>y \<in> set before. \<forall>e'. parse_line y \<noteq> Inl e'"
         "parse_line x = Inl e" by blast
    from h Inr have "raw # raws = (raw # before) @ x # after
        \<and> (\<forall>y \<in> set (raw # before). \<forall>e'. parse_line y \<noteq> Inl e') \<and> parse_line x = Inl e"
      by simp
    then show ?thesis by blast
  qed
qed

subsection \<open>Components of a label\<close>

lemma split_on_append:
  "sep \<notin> set a \<Longrightarrow> split_on sep (a @ sep # s) = a # split_on sep s"
  by (induction a) auto

lemma split_on_nonempty: "split_on sep s \<noteq> []"
  by (induction s) (auto split: list.splits)

lemma label_key_ignores_rest:
  assumes "CHR '':'' \<notin> set a" and "CHR '':'' \<notin> set b"
  shows "label_key (a @ '':'' @ b @ '':'' @ rest) = a @ '':'' @ b"
  using assms by (simp add: label_key_def split_on_append)

subsection \<open>What the parser returns\<close>

lemma parse_output_collects:
  assumes "parse_rpm_modularity_output output = Inr (modules_raw, installed_packages)"
  shows "installed_packages = sorted_set (non_modular_packages (splitlines output))"
    and "map_of modules_raw key =
           (if modular_packages key (splitlines output) = [] then None
            else Some (modular_packages key (splitlines output)))"
    and "distinct (dict_keys modules_raw)"
    and "\<forall>(k, pkgs) \<in> set modules_raw. pkgs \<noteq> []"
proof -
  from assms obtain ps where
    loop: "parse_lines (splitlines output) [] [] = Inr (modules_raw, ps)"
    and ps: "installed_packages = sorted_set ps"
    by (auto simp add: parse_rpm_modularity_output_def split: sum.splits)
  from parse_lines_collects [OF loop]
  have c: "ps = non_modular_packages (splitlines output)"
    "\<And>k. map_of modules_raw k =
           (if modular_packages k (splitlines output) = [] then map_of [] k
            else Some (dict_get [] k [] @ modular_packages k (splitlines output)))"
    by simp_all
  show "installed_packages = sorted_set (non_modular_packages (splitlines output))"
    using ps c(1) by simp
  show "map_of modules_raw key =
           (if modular_packages key (splitlines output) = [] then None
            else Some (modular_packages key (splitlines output)))"
    using c(2) [of key] by (simp add: dict_get_def)
  show "distinct (dict_keys modules_raw)"
    using parse_lines_keys [OF loop] by (simp add: dict_keys_def)
  show "\<forall>(k, pkgs) \<in> set modules_raw. pkgs \<noteq> []"
    using parse_lines_values [OF loop] by simp
qed

text \<open>
  Claim C5. For every output text that the parser accepts: the list of packages without
  module is sorted and has no duplicates, and holds the packages of the lines labelled
  \<^verbatim>\<open>(none)\<close>; the keys of the dictionary are distinct; under each key the dictionary
  holds exactly the packages of the lines whose label has this key, in the order of the
  lines and with repetitions kept (so a package on two lines of one key stands twice),
  and a key with no line is absent; the key of a label is its first two components
  between colons, joined by a colon, whatever follows them.
\<close>

theorem parser_output_shape:
  assumes "parse_rpm_modularity_output output = Inr (modules_raw, installed_packages)"
  shows "sorted installed_packages \<and> distinct installed_packages
     \<and> set installed_packages = set (non_modular_packages (splitlines output))
     \<and> distinct (dict_keys modules_raw)
     \<and> (\<forall>key. map_of modules_raw key =
           (if modular_packages key (splitlines output) = [] then None
            else Some (modular_packages key (splitlines output))))
     \<and> (\<forall>a b rest. CHR '':'' \<notin> set a \<and> CHR '':'' \<notin> set b \<longrightarrow>
           label_key (a @ '':'' @ b @ '':'' @ rest) = a @ '':'' @ b)"
  using parse_output_collects [OF assms] label_key_ignores_rest
  by (simp add: sorted_sorted_set distinct_sorted_set set_sorted_set)

lemma duplicate_output_parsed:
  "parse_rpm_modularity_output duplicate_output =
     Inr ([(''nodejs:18'', [''pkg-b'', ''pkg-b''])], [''pkg-a'', ''pkg-z''])"
  unfolding duplicate_output_def by code_simp

lemma duplicate_output_modular:
  "modular_packages ''nodejs:18'' (splitlines duplicate_output) = [''pkg-b'', ''pkg-b'']"
  unfolding duplicate_output_def by code_simp

theorem parser_output_shape_witness:
  "parse_rpm_modularity_output duplicate_output =
     Inr ([(''nodejs:18'', [''pkg-b'', ''pkg-b''])], [''pkg-a'', ''pkg-z''])
   \<and> sorted [''pkg-a'', ''pkg-z''] \<and> distinct [''pkg-a'', ''pkg-z'']
   \<and> map_of [(''nodejs:18'', [''pkg-b'', ''pkg-b''])] ''nodejs:18''
       = Some (modular_packages ''nodejs:18'' (splitlines duplicate_output))
   \<and> modular_packages ''nodejs:18'' (splitlines duplicate_output) = [''pkg-b'', ''pkg-b'']
   \<and> label_key ''nodejs:18:ctx'' = ''nodejs:18''"
proof -
  have "CHR '':'' \<notin> set ''nodejs'' \<and> CHR '':'' \<notin> set ''18''" by simp
  with parser_output_shape [OF duplicate_output_parsed]
  have "label_key (''nodejs'' @ '':'' @ ''18'' @ '':'' @ ''ctx'') = ''nodejs'' @ '':'' @ ''18''"
    by blast
  then show ?thesis
    using parser_output_shape [OF duplicate_output_parsed] duplicate_output_parsed
      duplicate_output_modular
    by simp
qed

subsection \<open>When the parser fails\<close>

lemma parse_output_fails_iff:
  "(\<exists>e. parse_rpm_modularity_output output = Inl e)
     \<longleftrightarrow> (\<exists>raw \<in> set (splitlines output). malformed_line (strip raw))"
proof -
  have "(\<exists>e. parse_rpm_modularity_output output = Inl e)
          \<longleftrightarrow> (\<exists>e. parse_lines (splitlines output) [] [] = Inl e)"
    by (auto simp add: parse_rpm_modularity_output_def split: sum.splits)
  then show ?thesis
    by (simp add: parse_lines_fails_iff parse_line_fails_iff)
qed

lemma parse_output_error:
  assumes "parse_rpm_modularity_output output = Inl e"
  shows "\<exists>before raw after. splitlines output = before @ raw # after
           \<and> (\<forall>x \<in> set before. \<not> malformed_line (strip x)) \<and> malformed_line (strip raw)
           \<and> e = (if CHR '' '' \<notin> set (strip raw)
                  then ValueError (''Unexpected rpm output line (expected 2 columns): ''
                                   @ [apostrophe] @ strip raw @ [apostrophe])
                  else ValueError (''Invalid MODULARITYLABEL format for package ''
                                   @ [apostrophe] @ line_package (strip raw) @ [apostrophe]
                                   @ '': '' @ [apostrophe] @ line_label (strip raw)
                                   @ [apostrophe]))"
proof -
  from assms have "parse_lines (splitlines output) [] [] = Inl e"
    by (auto simp add: parse_rpm_modularity_output_def split: sum.splits)
  from parse_lines_first_error [OF this] obtain before raw after where
    h: "splitlines output = before @ raw # after"
       "\<forall>x \<in> set before. \<forall>e'. parse_line x \<noteq> Inl e'" "parse_line raw = Inl e"
    by blast
  from h(2) have a: "\<forall>x \<in> set before. \<not> malformed_line (strip x)"
    using parse_line_fails_iff by blast
  from h(3) have b: "malformed_line (strip raw)"
    using parse_line_fails_iff by blast
  from parse_line_error [OF h(3)]
  have c: "e = (if CHR '' '' \<notin> set (strip raw)
                  then ValueError (''Unexpected rpm output line (expected 2 columns): ''
                                   @ [apostrophe] @ strip raw @ [apostrophe])
                  else ValueError (''Invalid MODULARITYLABEL format for package ''
                                   @ [apostrophe] @ line_package (strip raw) @ [apostrophe]
                                   @ '': '' @ [apostrophe] @ line_label (strip raw)
                                   @ [apostrophe]))"
    by (simp add: unexpected_line_def invalid_label_def)
  from h(1) a b c show ?thesis by blast
qed

lemma parse_lines_blank:
  assumes "\<forall>raw \<in> set raws. strip raw = []"
  shows "parse_lines raws d ps = Inr (d, ps)"
  using assms by (induction raws) (simp_all add: parse_line_eq)

lemma parse_output_blank:
  assumes "\<forall>raw \<in> set (splitlines output). strip raw = []"
  shows "parse_rpm_modularity_output output = Inr ([], [])"
  using parse_lines_blank [OF assms, of "[]" "[]"]
  by (simp add: parse_rpm_modularity_output_def sorted_set_def)

text \<open>
  Claim C6. The parser fails exactly when some line of the output, once trimmed, is
  malformed. The failure is the one of the first such line: a line without a space fails
  with the \<^verbatim>\<open>ValueError\<close> whose message quotes the trimmed line (MalformedLine), and
  a line with a defective label fails with the \<^verbatim>\<open>ValueError\<close> whose message quotes
  the package name and the label (InvalidModularityLabel). Blank lines never make the
  parser fail: an output of blank lines only gives the two empty collections.
\<close>

theorem parser_fails_iff_malformed_line:
  "((\<exists>e. parse_rpm_modularity_output output = Inl e)
      \<longleftrightarrow> (\<exists>raw \<in> set (splitlines output). malformed_line (strip raw)))
   \<and> (\<forall>e. parse_rpm_modularity_output output = Inl e \<longrightarrow>
        (\<exists>before raw after. splitlines output = before @ raw # after
           \<and> (\<forall>x \<in> set before. \<not> malformed_line (strip x)) \<and> malformed_line (strip raw)
           \<and> e = (if CHR '' '' \<notin> set (strip raw)
                  then ValueError (''Unexpected rpm output line (expected 2 columns): ''
                                   @ [apostrophe] @ strip raw @ [apostrophe])
                  else ValueError (''Invalid MODULARITYLABEL format for package ''
                                   @ [apostrophe] @ line_package (strip raw) @ [apostrophe]
                                   @ '': '' @ [apostrophe] @ line_label (strip raw)
                                   @ [apostrophe]))))
   \<and> ((\<forall>raw \<in> set (splitlines output). strip raw = [])
        \<longrightarrow> parse_rpm_modularity_output output = Inr ([], []))"
  using parse_output_fails_iff [of "output"] parse_output_error [of "output"]
    parse_output_blank [of "output"]
  by blast

lemma badlabel_malformed:
  "\<exists>raw \<in> set (splitlines ''pkg-a badlabel''). malformed_line (strip raw)"
  by code_simp

theorem parser_fails_iff_malformed_line_witness:
  "(\<exists>e. parse_rpm_modularity_output ''pkg-a badlabel'' = Inl e)
   \<and> (\<exists>raw \<in> set (splitlines ''pkg-a badlabel''). malformed_line (strip raw))
   \<and> parse_rpm_modularity_output ''pkg-a badlabel''
       = Inl (ValueError (''Invalid MODULARITYLABEL format for package '' @ [apostrophe]
                          @ ''pkg-a'' @ [apostrophe] @ '': '' @ [apostrophe] @ ''badlabel''
                          @ [apostrophe]))
   \<and> parse_rpm_modularity_output ''onlyonecolumn''
       = Inl (ValueError (''Unexpected rpm output line (expected 2 columns): ''
                          @ [apostrophe] @ ''onlyonecolumn'' @ [apostrophe]))
   \<and> parse_rpm_modularity_output [CHR 0x0A, CHR 0x0A, CHR '' '', CHR '' '', CHR 0x0A] = Inr ([], [])"
proof -
  have a: "\<exists>e. parse_rpm_modularity_output ''pkg-a badlabel'' = Inl e"
    using parser_fails_iff_malformed_line [of "''pkg-a badlabel''"] badlabel_malformed
    by blast
  have b: "parse_rpm_modularity_output ''pkg-a badlabel''
       = Inl (ValueError (''Invalid MODULARITYLABEL format for package '' @ [apostrophe]
                          @ ''pkg-a'' @ [apostrophe] @ '': '' @ [apostrophe] @ ''badlabel''
                          @ [apostrophe]))"
    by code_simp
  have c: "parse_rpm_modularity_output ''onlyonecolumn''
       = Inl (ValueError (''Unexpected rpm output line (expected 2 columns): ''
                          @ [apostrophe] @ ''onlyonecolumn'' @ [apostrophe]))"
    by code_simp
  have d: "parse_rpm_modularity_output [CHR 0x0A, CHR 0x0A, CHR '' '', CHR '' '', CHR 0x0A]
             = Inr ([], [])"
    by code_simp
  from a b c d badlabel_malformed show ?thesis by blast
qed

section \<open>The parser's inventory in the evaluator\<close>

lemma dict_get_in_keys:
  assumes "key \<in> set (dict_keys d)" and "\<forall>(k, vs) \<in> set d. vs \<noteq> []"
  shows "dict_get d key [] \<noteq> []"
proof -
  from assms(1) have "map_of d key \<noteq> None"
    by (simp add: dict_keys_def map_of_eq_None_iff)
  then obtain vs where found: "map_of d key = Some vs" by blast
  then have "(key, vs) \<in> set d" by (rule map_of_SomeD)
  with assms(2) have "vs \<noteq> []" by blast
  with found show ?thesis by (simp add: dict_get_def)
qed

lemma matched_module_packages:
  assumes "evaluate_appstream_check gd t sd m ps = Inr (res, removal)"
    and "key \<in> set (matched_dnf_modules res)"
  shows "key \<in> set (dict_keys m)"
    and "set (dict_get m key []) \<subseteq> set (matched_dnf_modules_packages res)"
proof -
  from evaluate_success [OF assms(1)] obtain cutoff major pn mn where
    mm: "matched_dnf_modules res = sorted_set (filter (\<lambda>k. k \<in> set mn) (dict_keys m))"
    and mmp: "matched_dnf_modules_packages res =
         sorted_set (concat (map (\<lambda>k. dict_get m k []) (matched_dnf_modules res)))"
    by blast
  from assms(2) show "key \<in> set (dict_keys m)"
    by (simp add: mm set_sorted_set)
  have "set (matched_dnf_modules_packages res)
          = (\<Union>k \<in> set (matched_dnf_modules res). set (dict_get m k []))"
    by (subst mmp) (simp add: set_sorted_set)
  with assms(2) show "set (dict_get m key []) \<subseteq> set (matched_dnf_modules_packages res)"
    by blast
qed

text \<open>
  Claim C9. For every output text that the parser accepts, every key of the dictionary it
  returns holds a non-empty list of packages; and in every successful evaluation that
  takes this dictionary as its inventory of streams, every matched module has a non-empty
  list of packages, all of which are among the packages of the matched modules.
\<close>

theorem module_lists_non_empty:
  assumes "parse_rpm_modularity_output output = Inr (modules_raw, installed)"
  shows "(\<forall>(key, pkgs) \<in> set modules_raw. pkgs \<noteq> [])
     \<and> (\<forall>gd t sd ps res removal.
          evaluate_appstream_check gd t sd modules_raw ps = Inr (res, removal) \<longrightarrow>
          (\<forall>key \<in> set (matched_dnf_modules res).
             dict_get modules_raw key [] \<noteq> []
             \<and> set (dict_get modules_raw key []) \<subseteq> set (matched_dnf_modules_packages res)))"
proof (rule conjI)
  show nonempty: "\<forall>(key, pkgs) \<in> set modules_raw. pkgs \<noteq> []"
    by (rule parse_output_collects(4) [OF assms])
  show "\<forall>gd t sd ps res removal.
          evaluate_appstream_check gd t sd modules_raw ps = Inr (res, removal) \<longrightarrow>
          (\<forall>key \<in> set (matched_dnf_modules res).
             dict_get modules_raw key [] \<noteq> []
             \<and> set (dict_get modules_raw key []) \<subseteq> set (matched_dnf_modules_packages res))"
  proof (intro allI impI ballI conjI)
    fix gd t sd ps res removal key
    assume ev: "evaluate_appstream_check gd t sd modules_raw ps = Inr (res, removal)"
      and key: "key \<in> set (matched_dnf_modules res)"
    show "dict_get modules_raw key [] \<noteq> []"
      by (rule dict_get_in_keys [OF matched_module_packages(1) [OF ev key] nonempty])
    show "set (dict_get modules_raw key []) \<subseteq> set (matched_dnf_modules_packages res)"
      by (rule matched_module_packages(2) [OF ev key])
  qed
qed

lemma stream_output_parsed:
  "parse_rpm_modularity_output stream_output = Inr ([(''nodejs:18'', [''nodejs-libs'', ''npm''])], [])"
  unfolding stream_output_def by code_simp

lemma stream_output_evaluation:
  "evaluate_appstream_check scenario_reference ''el9'' (PyStr ''2026-02-17'')
       [(''nodejs:18'', [''nodejs-libs'', ''npm''])] []
     = Inr (\<lparr>target_major = ''el9'', matched_packages = [],
             matched_dnf_modules = [''nodejs:18''],
             matched_dnf_modules_packages = [''nodejs-libs'', ''npm''], any_match = True\<rparr>,
            [''nodejs-libs'', ''npm''])"
  unfolding scenario_reference_def by code_simp

theorem module_lists_non_empty_witness:
  "parse_rpm_modularity_output stream_output = Inr ([(''nodejs:18'', [''nodejs-libs'', ''npm''])], [])
   \<and> dict_get [(''nodejs:18'', [''nodejs-libs'', ''npm''])] ''nodejs:18'' [] \<noteq> []
   \<and> set (dict_get [(''nodejs:18'', [''nodejs-libs'', ''npm''])] ''nodejs:18'' [])
        \<subseteq> set [''nodejs-libs'', ''npm'']"
proof -
  note matched = module_lists_non_empty [OF stream_output_parsed, THEN conjunct2, rule_format,
      OF stream_output_evaluation]
  have "dict_get [(''nodejs:18'', [''nodejs-libs'', ''npm''])] ''nodejs:18'' [] \<noteq> []
     \<and> set (dict_get [(''nodejs:18'', [''nodejs-libs'', ''npm''])] ''nodejs:18'' [])
        \<subseteq> set (matched_dnf_modules_packages
            \<lparr>target_major = ''el9'', matched_packages = [],
             matched_dnf_modules = [''nodejs:18''],
             matched_dnf_modules_packages = [''nodejs-libs'', ''npm''], any_match = True\<rparr>)"
    by (rule matched) simp
  then show ?thesis
    using stream_output_parsed by simp
qed

section \<open>Reference entries without a name\<close>

lemma retired_package_names_named:
  assumes "retired_package_names cutoff items = Inr names"
  shows "retired_package_names cutoff (filter named items) = Inr names"
  using assms
proof (induction items arbitrary: names)
  case Nil
  then show ?case by simp
next
  case (Cons item items)
  from Cons.prems obtain retired rest where
    r: "is_retired (pkg_end_date item) cutoff = Inr retired"
    and rest: "retired_package_names cutoff items = Inr rest"
    and names: "names = (if retired \<and> truthy (pkg_name item)
                         then str_opt (pkg_name item) # rest else rest)"
    by (auto split: sum.splits)
  from Cons.IH [OF rest] have ih: "retired_package_names cutoff (filter named items) = Inr rest" .
  have "named item \<longleftrightarrow> truthy (pkg_name item)"
    by (simp add: named_def)
  then show ?case
    using r ih names by simp
qed

lemma retired_package_names_sound:
  assumes "retired_package_names cutoff items = Inr names" and "n \<in> set names"
  shows "n \<noteq> [] \<and> (\<exists>item \<in> set items. pkg_name item = Some n
                       \<and> is_retired (pkg_end_date item) cutoff = Inr True)"
  using assms
proof (induction items arbitrary: names)
  case Nil
  then show ?case by simp
next
  case (Cons item items)
  from Cons.prems(1) obtain retired rest where
    r: "is_retired (pkg_end_date item) cutoff = Inr retired"
    and rest: "retired_package_names cutoff items = Inr rest"
    and names: "names = (if retired \<and> truthy (pkg_name item)
                         then str_opt (pkg_name item) # rest else rest)"
    by (auto split: sum.splits)
  show ?case
  proof (cases "n \<in> set rest")
    case True
    from Cons.IH [OF rest True] show ?thesis by auto
  next
    case False
    with Cons.prems(2) names have "retired" "truthy (pkg_name item)" "n = str_opt (pkg_name item)"
      by (auto split: if_splits)
    with r show ?thesis
      by (auto simp add: truthy_def str_opt_def split: option.splits)
  qed
qed

text \<open>
  Claim C10. A \<^verbatim>\<open>package\<close> entry whose name is missing, null or the empty string takes
  no part in a successful evaluation, whatever its end date: the evaluation returns the
  same result on the table without these entries, and every matched package is the
  non-empty name of some entry of the table.
\<close>

theorem nameless_package_entries_excluded:
  assumes "evaluate_appstream_check gd t sd m p = Inr (res, removal)"
    and "gd t = Some major"
  shows "evaluate_appstream_check
           (gd(t \<mapsto> major\<lparr>package := Some (filter named (or_empty (package major)))\<rparr>))
           t sd m p = Inr (res, removal)
     \<and> (\<forall>n \<in> set (matched_packages res).
           n \<noteq> [] \<and> (\<exists>item \<in> set (or_empty (package major)). pkg_name item = Some n))"
proof -
  from assms obtain cutoff pn mn where
    c: "parse_date sd = Inr cutoff"
    and pn: "retired_package_names cutoff (or_empty (package major)) = Inr pn"
    and mn: "retired_module_names cutoff (or_empty (dnf_module major)) = Inr mn"
    by (auto simp add: evaluate_appstream_check_def Let_def split: sum.splits)
  have same: "evaluate_appstream_check
           (gd(t \<mapsto> major\<lparr>package := Some (filter named (or_empty (package major)))\<rparr>))
           t sd m p = evaluate_appstream_check gd t sd m p"
    using c pn mn assms(2) retired_package_names_named [OF pn]
    by (simp add: evaluate_appstream_check_def Let_def or_empty_def)
  from evaluate_success [OF assms(1)] c pn assms(2)
  have mp: "matched_packages res = sorted_set (filter (\<lambda>x. x \<in> set pn) p)"
    by auto
  have "n \<noteq> [] \<and> (\<exists>item \<in> set (or_empty (package major)). pkg_name item = Some n)"
    if "n \<in> set (matched_packages res)" for n
  proof -
    from that have "n \<in> set pn" by (simp add: mp set_sorted_set)
    from retired_package_names_sound [OF pn this] show ?thesis by blast
  qed
  with same assms(1) show ?thesis by simp
qed

lemma nameless_evaluation:
  "evaluate_appstream_check nameless_reference ''el9'' (PyStr ''2026-02-17'') [] [''None'', []]
     = Inr (\<lparr>target_major = ''el9'', matched_packages = [], matched_dnf_modules = [],
             matched_dnf_modules_packages = [], any_match = False\<rparr>, [])"
  unfolding nameless_reference_def by code_simp

lemma nameless_retired:
  "is_retired (PyStr ''2020-01-01'') \<lparr>year = 2026, month = 2, day = 17\<rparr> = Inr True"
  by code_simp

theorem nameless_package_entries_excluded_witness:
  "nameless_reference ''el9'' =
     Some \<lparr>package = Some [\<lparr>pkg_name = None, pkg_end_date = PyStr ''2020-01-01''\<rparr>,
                            \<lparr>pkg_name = Some [], pkg_end_date = PyStr ''2020-01-01''\<rparr>],
           dnf_module = None\<rparr>
   \<and> is_retired (PyStr ''2020-01-01'') \<lparr>year = 2026, month = 2, day = 17\<rparr> = Inr True
   \<and> evaluate_appstream_check nameless_reference ''el9'' (PyStr ''2026-02-17'') [] [''None'', []]
     = Inr (\<lparr>target_major = ''el9'', matched_packages = [], matched_dnf_modules = [],
             matched_dnf_modules_packages = [], any_match = False\<rparr>, [])
   \<and> evaluate_appstream_check
        (nameless_reference(''el9'' \<mapsto> \<lparr>package = Some [], dnf_module = None\<rparr>))
        ''el9'' (PyStr ''2026-02-17'') [] [''None'', []]
     = Inr (\<lparr>target_major = ''el9'', matched_packages = [], matched_dnf_modules = [],
             matched_dnf_modules_packages = [], any_match = False\<rparr>, [])"
proof -
  have table: "nameless_reference ''el9'' =
     Some \<lparr>package = Some [\<lparr>pkg_name = None, pkg_end_date = PyStr ''2020-01-01''\<rparr>,
                            \<lparr>pkg_name = Some [], pkg_end_date = PyStr ''2020-01-01''\<rparr>],
           dnf_module = None\<rparr>"
    by (simp add: nameless_reference_def)
  from nameless_package_entries_excluded [OF nameless_evaluation table]
  show ?thesis
    using table nameless_evaluation nameless_retired
    by (simp add: named_def truthy_def or_empty_def)
qed

section \<open>Properties of the detector\<close>

subsection \<open>Integers written in decimal digits\<close>

lemma strip_by_unchanged:
  assumes "s \<noteq> []" and "\<not> P (hd s)" and "\<not> P (last s)"
  shows "strip_by P s = s"
proof -
  from assms(1,2) have a: "dropWhile P s = s"
    by (cases s) simp_all
  from assms(1,3) have "dropWhile P (rev s) = rev s"
    by (cases "rev s") (simp_all add: last_rev [symmetric] hd_rev)
  with a show ?thesis by (simp add: strip_by_def)
qed

lemma is_decimal_not_int_space: "is_decimal c \<Longrightarrow> \<not> is_int_space c"
  by (auto simp add: is_decimal_def is_int_space_def)

lemma is_decimal_not_sign:
  "is_decimal c \<Longrightarrow> c \<noteq> CHR ''+'' \<and> c \<noteq> CHR ''-'' \<and> c \<noteq> CHR ''_''"
  by (auto simp add: is_decimal_def)

lemma digit_groups_decimal:
  "s \<noteq> [] \<Longrightarrow> list_all is_decimal s \<Longrightarrow> digit_groups s"
proof (induction s rule: digit_groups.induct)
  case 1
  then show ?case by simp
next
  case (2 c)
  then show ?case by simp
next
  case (3 c d cs)
  then show ?case using is_decimal_not_sign [of d] by simp
qed

lemma filter_underscore_decimal:
  "list_all is_decimal s \<Longrightarrow> filter (\<lambda>c. c \<noteq> CHR ''_'') s = s"
  by (induction s) (auto dest: is_decimal_not_sign)

lemma py_int_decimal:
  assumes "s \<noteq> []" and "list_all is_decimal s"
  shows "py_int s = Inr (decimal_value s)"
proof -
  from assms have h: "is_decimal (hd s)" and l: "is_decimal (last s)"
    by (simp_all add: list_all_iff)
  have t: "strip_by is_int_space s = s"
    using assms(1) h l by (intro strip_by_unchanged is_decimal_not_int_space)
  show ?thesis
    using assms h is_decimal_not_sign [of "hd s"]
    by (simp add: py_int_def t Let_def digit_groups_decimal filter_underscore_decimal)
qed

lemma py_int_error: "py_int s = Inl e \<Longrightarrow> \<exists>msg. e = ValueError msg"
  by (auto simp add: py_int_def Let_def split: if_splits)

subsection \<open>The major version\<close>

lemma takeWhile_absent: "sep \<notin> set s \<Longrightarrow> takeWhile (\<lambda>c. c \<noteq> sep) s = s"
  by (induction s) auto

lemma split_first_head:
  "split_first sep s =
     takeWhile (\<lambda>c. c \<noteq> sep) s
       # (if sep \<in> set s then [tl (dropWhile (\<lambda>c. c \<noteq> sep) s)] else [])"
  by (simp add: split_first_def takeWhile_absent)

lemma isdigit_decimal: "s \<noteq> [] \<Longrightarrow> list_all is_decimal s \<Longrightarrow> isdigit s"
  by (simp add: isdigit_def isdigit_char_def list_all_iff)

lemma isdigit_char_plain:
  "isdigit_char c \<Longrightarrow> \<not> is_int_space c \<and> c \<noteq> CHR ''+'' \<and> c \<noteq> CHR ''-'' \<and> c \<noteq> CHR ''_''"
  by (auto simp add: isdigit_char_def is_decimal_def is_int_space_def)

lemma digit_groups_chars:
  "digit_groups s \<Longrightarrow> \<forall>c \<in> set s. is_decimal c \<or> c = CHR ''_''"
  by (induction s rule: digit_groups.induct) (auto split: if_splits)

lemma py_int_isdigit:
  assumes "isdigit s"
  shows "py_int s =
     (if list_all is_decimal s then Inr (decimal_value s)
      else Inl (ValueError (''invalid literal for int() with base 10: '' @ repr_str s)))"
proof (cases "list_all is_decimal s")
  case True
  with assms show ?thesis by (simp add: py_int_decimal isdigit_def)
next
  case False
  from assms have ne: "s \<noteq> []" and all: "\<forall>c \<in> set s. isdigit_char c"
    by (simp_all add: isdigit_def list_all_iff)
  from ne all have h: "isdigit_char (hd s)" and l: "isdigit_char (last s)"
    by simp_all
  have t: "strip_by is_int_space s = s"
    using ne h l isdigit_char_plain by (intro strip_by_unchanged) blast+
  have "\<not> digit_groups s"
  proof
    assume "digit_groups s"
    from digit_groups_chars [OF this] all isdigit_char_plain
    have "\<forall>c \<in> set s. is_decimal c" by blast
    with False show False by (simp add: list_all_iff)
  qed
  with False ne h isdigit_char_plain [of "hd s"] show ?thesis
    by (simp add: py_int_def t Let_def)
qed

lemma target_major_of_cases:
  fixes version_id
  defines "major \<equiv> takeWhile (\<lambda>c. c \<noteq> CHR ''.'') version_id"
  shows "major \<noteq> [] \<and> list_all is_decimal major \<Longrightarrow>
           target_major_of version_id = Inr (''el'' @ str_int (decimal_value major))"
    and "\<not> isdigit major \<Longrightarrow> target_major_of version_id = Inl (major_not_parsed version_id)"
    and "\<not> (major \<noteq> [] \<and> list_all is_decimal major) \<Longrightarrow>
           \<exists>msg. target_major_of version_id = Inl (ValueError msg)"
proof -
  have eq: "target_major_of version_id =
     (if \<not> isdigit major then Inl (major_not_parsed version_id)
      else (case py_int major of Inl e \<Rightarrow> Inl e | Inr n \<Rightarrow> Inr (''el'' @ str_int n)))"
    by (simp add: target_major_of_def split_first_head major_def)
  show "major \<noteq> [] \<and> list_all is_decimal major \<Longrightarrow>
           target_major_of version_id = Inr (''el'' @ str_int (decimal_value major))"
    by (simp add: eq isdigit_decimal py_int_decimal)
  show "\<not> isdigit major \<Longrightarrow> target_major_of version_id = Inl (major_not_parsed version_id)"
    by (simp add: eq)
  show "\<exists>msg. target_major_of version_id = Inl (ValueError msg)"
    if bad: "\<not> (major \<noteq> [] \<and> list_all is_decimal major)"
  proof (cases "isdigit major")
    case False
    then show ?thesis by (simp add: eq major_not_parsed_def)
  next
    case True
    then have "major \<noteq> []" by (simp add: isdigit_def)
    with bad have "\<not> list_all is_decimal major" by simp
    with True show ?thesis by (simp add: eq py_int_isdigit)
  qed
qed

subsection \<open>The first assignment of the file\<close>

lemma version_id_of_prefixed:
  assumes "startswith line ''VERSION_ID=''"
  shows "version_id_of line =
           Inr (strip_char apostrophe (strip_char quotation_mark (strip (drop 11 line))))"
proof -
  from assms have "take 11 line = ''VERSION_ID=''"
    by (simp add: startswith_def eval_nat_numeral)
  with append_take_drop_id [of 11 line]
  have line: "line = ''VERSION_ID'' @ CHR ''='' # drop 11 line"
    by simp
  have "split_first (CHR ''='') (''VERSION_ID'' @ CHR ''='' # drop 11 line)
          = [''VERSION_ID'', drop 11 line]"
    by (simp add: split_first_def)
  with line have "split_first (CHR ''='') line = [''VERSION_ID'', drop 11 line]"
    by simp
  then show ?thesis by (simp add: version_id_of_def)
qed

lemma find_version_id_first:
  assumes "\<forall>x \<in> set before. \<not> startswith (strip x) ''VERSION_ID=''"
    and "startswith (strip raw) ''VERSION_ID=''"
  shows "find_version_id (before @ raw # after) =
     Inr (Some (strip_char apostrophe (strip_char quotation_mark
                  (strip (drop 11 (strip raw))))))"
  using assms
  by (induction before) (simp_all add: Let_def version_id_of_prefixed)

lemma find_version_id_none:
  assumes "\<forall>x \<in> set raws. \<not> startswith (strip x) ''VERSION_ID=''"
  shows "find_version_id raws = Inr None"
  using assms by (induction raws) (simp_all add: Let_def)

subsection \<open>The digits of a number\<close>

lemma digit_value_digit_char: "n < 10 \<Longrightarrow> digit_value (digit_char n) = int n"
proof -
  assume "n < 10"
  then have "n \<in> set [0..<10]" by simp
  moreover have "\<forall>k \<in> set [0..<10]. digit_value (digit_char k) = int k"
    by code_simp
  ultimately show ?thesis by blast
qed

lemma digit_char_nonzero: "0 < n \<Longrightarrow> n < 10 \<Longrightarrow> digit_char n \<noteq> CHR ''0''"
proof -
  assume "0 < n" "n < 10"
  then have "n \<in> set [1..<10]" by simp
  moreover have "\<forall>k \<in> set [1..<10]. digit_char k \<noteq> CHR ''0''"
    by code_simp
  ultimately show ?thesis by blast
qed

lemma digit_value_nonneg: "is_decimal c \<Longrightarrow> 0 \<le> digit_value c"
proof -
  assume "is_decimal c"
  then have "c \<in> set ''0123456789''" by (simp add: is_decimal_def)
  moreover have "\<forall>d \<in> set ''0123456789''. 0 \<le> digit_value d"
    by code_simp
  ultimately show ?thesis by blast
qed

lemma decimal_value_snoc: "decimal_value (s @ [c]) = 10 * decimal_value s + digit_value c"
  by (simp add: decimal_value_def)

lemma decimal_value_nonneg: "list_all is_decimal s \<Longrightarrow> 0 \<le> decimal_value s"
proof (induction s rule: rev_induct)
  case Nil
  then show ?case by (simp add: decimal_value_def)
next
  case (snoc c s)
  then have "0 \<le> decimal_value s" "0 \<le> digit_value c"
    by (simp_all add: digit_value_nonneg)
  then show ?case by (simp add: decimal_value_snoc)
qed

lemma str_nat_nonempty: "str_nat n \<noteq> []"
  by (subst str_nat.simps) simp

lemma decimal_value_str_nat: "decimal_value (str_nat n) = int n"
proof (induction n rule: str_nat.induct)
  case (1 n)
  show ?case
  proof (cases "n < 10")
    case True
    then show ?thesis
      by (subst str_nat.simps) (simp add: decimal_value_def digit_value_digit_char)
  next
    case False
    with 1 have ih: "decimal_value (str_nat (n div 10)) = int (n div 10)" by simp
    have "10 * int (n div 10) + int (n mod 10) = int n"
      by (simp add: zdiv_int zmod_int)
    with False ih show ?thesis
      by (subst str_nat.simps) (simp add: decimal_value_snoc digit_value_digit_char)
  qed
qed

lemma str_nat_no_leading_zero: "0 < n \<Longrightarrow> hd (str_nat n) \<noteq> CHR ''0''"
proof (induction n rule: str_nat.induct)
  case (1 n)
  show ?case
  proof (cases "n < 10")
    case True
    with 1(2) show ?thesis
      by (subst str_nat.simps) (simp add: digit_char_nonzero)
  next
    case False
    then have "0 < n div 10" by simp
    with 1(1) False have "hd (str_nat (n div 10)) \<noteq> CHR ''0''" by simp
    with False show ?thesis
      by (subst str_nat.simps) (simp add: str_nat_nonempty)
  qed
qed

lemma str_int_of_nat: "str_int (int n) = str_nat n"
  by (simp add: str_int_def)

text \<open>
  Claim C8. When the file has a line that, once trimmed, starts with \<^verbatim>\<open>VERSION_ID=\<close>,
  the first such line decides: its value is what follows the prefix, trimmed of whitespace,
  then of double quotes, then of single quotes, and the major version is the part of the
  value before the first dot. A major version of decimal digits gives \<^verbatim>\<open>el\<close> followed
  by the number it denotes, written without leading zeros; an empty value fails as a file
  without the line does; any other major version fails with a \<^verbatim>\<open>ValueError\<close>, the one
  that quotes the value when the major version is not made of digits. A missing file, an
  unreadable file and a file without the line fail with one and the same error.
\<close>

theorem detect_target_major_result:
  "(\<forall>content before raw after.
       file_lines content = before @ raw # after
       \<and> (\<forall>x \<in> set before. \<not> startswith (strip x) ''VERSION_ID='')
       \<and> startswith (strip raw) ''VERSION_ID=''
       \<longrightarrow>
       (let version_id = strip_char apostrophe (strip_char quotation_mark
                           (strip (drop 11 (strip raw))));
            major = takeWhile (\<lambda>c. c \<noteq> CHR ''.'') version_id
        in (version_id = [] \<longrightarrow>
              detect_target_major (FileText content) = Inl version_id_not_detected)
         \<and> (major \<noteq> [] \<and> list_all is_decimal major \<longrightarrow>
              detect_target_major (FileText content)
                = Inr (''el'' @ str_int (decimal_value major)))
         \<and> (version_id \<noteq> [] \<and> \<not> isdigit major \<longrightarrow>
              detect_target_major (FileText content) = Inl (major_not_parsed version_id))
         \<and> (version_id \<noteq> [] \<and> \<not> (major \<noteq> [] \<and> list_all is_decimal major) \<longrightarrow>
              (\<exists>msg. detect_target_major (FileText content) = Inl (ValueError msg)))))
   \<and> detect_target_major NoFile = Inl version_id_not_detected
   \<and> detect_target_major Unreadable = Inl version_id_not_detected
   \<and> (\<forall>content. (\<forall>x \<in> set (file_lines content). \<not> startswith (strip x) ''VERSION_ID='')
         \<longrightarrow> detect_target_major (FileText content) = Inl version_id_not_detected)
   \<and> (\<forall>n. decimal_value (str_int (int n)) = int n
           \<and> (0 < n \<longrightarrow> hd (str_int (int n)) \<noteq> CHR ''0''))"
proof (intro conjI allI impI)
  fix content before raw after
  assume h: "file_lines content = before @ raw # after
       \<and> (\<forall>x \<in> set before. \<not> startswith (strip x) ''VERSION_ID='')
       \<and> startswith (strip raw) ''VERSION_ID=''"
  define version_id where
    "version_id = strip_char apostrophe (strip_char quotation_mark (strip (drop 11 (strip raw))))"
  define major where "major = takeWhile (\<lambda>c. c \<noteq> CHR ''.'') version_id"
  from h have "read_version_id (FileText content) = Inr (Some version_id)"
    by (simp add: read_version_id_def find_version_id_first version_id_def)
  then have d: "detect_target_major (FileText content) =
      (if version_id = [] then Inl version_id_not_detected else target_major_of version_id)"
    by (simp add: detect_target_major_def)
  have "(version_id = [] \<longrightarrow>
              detect_target_major (FileText content) = Inl version_id_not_detected)
         \<and> (major \<noteq> [] \<and> list_all is_decimal major \<longrightarrow>
              detect_target_major (FileText content)
                = Inr (''el'' @ str_int (decimal_value major)))
         \<and> (version_id \<noteq> [] \<and> \<not> isdigit major \<longrightarrow>
              detect_target_major (FileText content) = Inl (major_not_parsed version_id))
         \<and> (version_id \<noteq> [] \<and> \<not> (major \<noteq> [] \<and> list_all is_decimal major) \<longrightarrow>
              (\<exists>msg. detect_target_major (FileText content) = Inl (ValueError msg)))"
  proof (intro conjI impI)
    assume "version_id = []"
    then show "detect_target_major (FileText content) = Inl version_id_not_detected"
      by (simp add: d)
  next
    assume ok: "major \<noteq> [] \<and> list_all is_decimal major"
    then have "version_id \<noteq> []" by (auto simp add: major_def)
    with target_major_of_cases(1) [of version_id] ok
    show "detect_target_major (FileText content) = Inr (''el'' @ str_int (decimal_value major))"
      by (simp add: d major_def)
  next
    assume "version_id \<noteq> [] \<and> \<not> isdigit major"
    with target_major_of_cases(2) [of version_id]
    show "detect_target_major (FileText content) = Inl (major_not_parsed version_id)"
      by (simp add: d major_def)
  next
    assume "version_id \<noteq> [] \<and> \<not> (major \<noteq> [] \<and> list_all is_decimal major)"
    with target_major_of_cases(3) [of version_id]
    show "\<exists>msg. detect_target_major (FileText content) = Inl (ValueError msg)"
      by (simp add: d major_def)
  qed
  then show "let version_id = strip_char apostrophe (strip_char quotation_mark
                           (strip (drop 11 (strip raw))));
            major = takeWhile (\<lambda>c. c \<noteq> CHR ''.'') version_id
        in (version_id = [] \<longrightarrow>
              detect_target_major (FileText content) = Inl version_id_not_detected)
         \<and> (major \<noteq> [] \<and> list_all is_decimal major \<longrightarrow>
              detect_target_major (FileText content)
                = Inr (''el'' @ str_int (decimal_value major)))
         \<and> (version_id \<noteq> [] \<and> \<not> isdigit major \<longrightarrow>
              detect_target_major (FileText content) = Inl (major_not_parsed version_id))
         \<and> (version_id \<noteq> [] \<and> \<not> (major \<noteq> [] \<and> list_all is_decimal major) \<longrightarrow>
              (\<exists>msg. detect_target_major (FileText content) = Inl (ValueError msg)))"
    unfolding Let_def version_id_def major_def .
next
  show "detect_target_major NoFile = Inl version_id_not_detected"
    by (simp add: detect_target_major_def read_version_id_def)
next
  show "detect_target_major Unreadable = Inl version_id_not_detected"
    by (simp add: detect_target_major_def read_version_id_def)
next
  fix content
  assume "\<forall>x \<in> set (file_lines content). \<not> startswith (strip x) ''VERSION_ID=''"
  then show "detect_target_major (FileText content) = Inl version_id_not_detected"
    by (simp add: detect_target_major_def read_version_id_def find_version_id_none)
next
  fix n
  show "decimal_value (str_int (int n)) = int n"
    by (simp add: str_int_of_nat decimal_value_str_nat)
next
  fix n :: nat
  assume "0 < n"
  then show "hd (str_int (int n)) \<noteq> CHR ''0''"
    by (simp add: str_int_of_nat str_nat_no_leading_zero)
qed

lemma os_release_9_4_lines:
  "file_lines os_release_9_4 =
     [''NAME='' @ [quotation_mark] @ ''RHEL'' @ [quotation_mark, CHR 0x0A]]
     @ (''VERSION_ID='' @ [quotation_mark] @ ''9.4'' @ [quotation_mark, CHR 0x0A]) # []
   \<and> (\<forall>x \<in> set [''NAME='' @ [quotation_mark] @ ''RHEL'' @ [quotation_mark, CHR 0x0A]].
         \<not> startswith (strip x) ''VERSION_ID='')
   \<and> startswith (strip (''VERSION_ID='' @ [quotation_mark] @ ''9.4'' @ [quotation_mark, CHR 0x0A]))
         ''VERSION_ID=''"
  unfolding os_release_9_4_def by code_simp

lemma os_release_9_4_version_id:
  "strip_char apostrophe (strip_char quotation_mark
     (strip (drop 11 (strip (''VERSION_ID='' @ [quotation_mark] @ ''9.4''
                             @ [quotation_mark, CHR 0x0A]))))) = ''9.4''"
  by code_simp

lemma major_9: "list_all is_decimal ''9'' \<and> str_int (decimal_value ''9'') = ''9''"
  by code_simp

lemma detect_examples:
  "detect_target_major (FileText (''VERSION_ID='' @ [quotation_mark] @ ''08'' @ [quotation_mark]))
     = Inr ''el8''
   \<and> detect_target_major (FileText ''VERSION_ID=abc'') = Inl (major_not_parsed ''abc'')
   \<and> detect_target_major (FileText ''NAME=RHEL'') = Inl version_id_not_detected"
  by code_simp

theorem detect_target_major_result_witness:
  "detect_target_major (FileText os_release_9_4) = Inr ''el9''
   \<and> detect_target_major (FileText (''VERSION_ID='' @ [quotation_mark] @ ''08'' @ [quotation_mark]))
       = Inr ''el8''
   \<and> detect_target_major (FileText ''VERSION_ID=abc'') = Inl (major_not_parsed ''abc'')
   \<and> detect_target_major NoFile = detect_target_major (FileText ''NAME=RHEL'')
   \<and> detect_target_major Unreadable = detect_target_major (FileText ''NAME=RHEL'')"
proof -
  note first = detect_target_major_result [THEN conjunct1, rule_format,
      OF os_release_9_4_lines]
  have major: "takeWhile (\<lambda>c. c \<noteq> CHR ''.'') ''9.4'' = ''9''"
    by simp
  from first have "detect_target_major (FileText os_release_9_4)
      = Inr (''el'' @ str_int (decimal_value ''9''))"
    unfolding Let_def os_release_9_4_version_id major using major_9 by simp
  then have a: "detect_target_major (FileText os_release_9_4) = Inr ''el9''"
    using major_9 by simp
  have b: "detect_target_major NoFile = Inl version_id_not_detected"
    "detect_target_major Unreadable = Inl version_id_not_detected"
    using detect_target_major_result by blast+
  from a b detect_examples show ?thesis by simp
qed

end
